theory Spec2Isabelle
  imports Main "HOL-Library.Word"
begin

unbundle bit_operations_syntax

section \<open>The Objective-C runtime data parser of strongarm\<close>

text \<open>
  This theory embeds \<^verbatim>\<open>strongarm/macho/objc_runtime_data_parser.py\<close>.
  Python integers are unbounded, so every address, pointer and struct field is an \<open>int\<close>;
  byte counts and struct sizes, which can never be negative, are \<open>nat\<close>.
  A raised exception is the value \<open>None\<close> of an option type: a function that returns
  \<open>None\<close> here is a call that does not return in Python.

  Several records of the source have fields of the same name (\<^verbatim>\<open>name\<close>,
  \<^verbatim>\<open>implementation\<close>, \<^verbatim>\<open>sizeof\<close>); the fields carry a short prefix
  naming their class where they would clash.
\<close>

subsection \<open>Data model\<close>

text \<open>\<^verbatim>\<open>ObjcSelref(source_address, destination_address, selector_literal)\<close>\<close>

record objc_selref =
  source_address :: int
  destination_address :: int
  selector_literal :: string

definition ObjcSelref :: "int \<Rightarrow> int \<Rightarrow> string \<Rightarrow> objc_selref" where
  "ObjcSelref src dst lit =
     \<lparr>source_address = src, destination_address = dst, selector_literal = lit\<rparr>"

text \<open>
  \<^verbatim>\<open>ObjcSelector(name, selref, implementation)\<close>. The constructor computes
  \<^verbatim>\<open>is_external_definition = (not self.implementation)\<close>: Python's \<^verbatim>\<open>not\<close> is true of
  \<^verbatim>\<open>None\<close> and of the integer 0.
\<close>

record objc_selector =
  sel_name :: string
  sel_selref :: "objc_selref option"
  sel_implementation :: "int option"
  is_external_definition :: bool

definition py_not_int :: "int option \<Rightarrow> bool" where
  "py_not_int v = (case v of None \<Rightarrow> True | Some n \<Rightarrow> n = 0)"

definition ObjcSelector :: "string \<Rightarrow> objc_selref option \<Rightarrow> int option \<Rightarrow> objc_selector" where
  "ObjcSelector nm selref imp =
     \<lparr>sel_name = nm, sel_selref = selref, sel_implementation = imp,
      is_external_definition = py_not_int imp\<rparr>"

text \<open>\<^verbatim>\<open>ObjcClass(name, selectors)\<close>\<close>

record objc_class =
  class_name :: string
  selectors :: "objc_selector list"

definition ObjcClass :: "string \<Rightarrow> objc_selector list \<Rightarrow> objc_class" where
  "ObjcClass nm sels = \<lparr>class_name = nm, selectors = sels\<rparr>"

subsection \<open>The binary, as the parser uses it\<close>

text \<open>
  \<^verbatim>\<open>MachoBinary\<close> and the structures of \<^verbatim>\<open>arch_independent_structs\<close> are imported by
  the parser; the parser's functions take them as a parameter. A structure is a record of
  the fields the parser reads, and reading a structure at an address is a function of the
  binary that may raise. \<^verbatim>\<open>platform_word_type\<close> is one of the two ctypes integer types.
\<close>

datatype word_type = C_uint32 | C_uint64

fun sizeof :: "word_type \<Rightarrow> nat" where
  "sizeof C_uint32 = 4"
| "sizeof C_uint64 = 8"

type_synonym byte = "8 word"

text \<open>
  \<^verbatim>\<open>binary_word.from_buffer(buf).value\<close>: the unsigned value of the first
  \<^verbatim>\<open>sizeof(binary_word)\<close> bytes of the buffer in the byte order of the host
  (little-endian); ctypes raises \<^verbatim>\<open>ValueError\<close> on a buffer that is too small.
\<close>

fun le_value :: "byte list \<Rightarrow> int" where
  "le_value [] = 0"
| "le_value (x # xs) = uint x + 256 * le_value xs"

definition from_buffer :: "word_type \<Rightarrow> byte list \<Rightarrow> int option" where
  "from_buffer t buf =
     (if length buf < sizeof t then None else Some (le_value (take (sizeof t) buf)))"

text \<open>A section: \<^verbatim>\<open>address\<close>, \<^verbatim>\<open>cmd.size\<close> and \<^verbatim>\<open>content\<close>.\<close>

record macho_section =
  address :: int
  cmd_size :: nat
  content :: "byte list"

text \<open>\<^verbatim>\<open>ObjcClassRawStruct\<close>: only \<^verbatim>\<open>data\<close> is read.\<close>

record objc_class_raw_struct =
  data :: int

text \<open>\<^verbatim>\<open>ObjcDataRawStruct\<close>: \<^verbatim>\<open>name\<close> and \<^verbatim>\<open>base_methods\<close> are read.\<close>

record objc_data_raw_struct =
  data_name :: int
  base_methods :: int

text \<open>\<^verbatim>\<open>ObjcMethodListStruct\<close>: \<^verbatim>\<open>methcount\<close> and the structure's \<^verbatim>\<open>sizeof\<close>.\<close>

record objc_method_list_struct =
  methcount :: int
  methlist_sizeof :: int

text \<open>\<^verbatim>\<open>ObjcMethodStruct\<close>: \<^verbatim>\<open>name\<close>, \<^verbatim>\<open>implementation\<close> and the structure's \<^verbatim>\<open>sizeof\<close>.\<close>

record objc_method_struct =
  method_name :: int
  method_implementation :: int
  method_sizeof :: int

text \<open>A symbol table entry: \<^verbatim>\<open>n_un.n_strx\<close> and \<^verbatim>\<open>n_desc\<close>.\<close>

record nlist_struct =
  n_strx :: int
  n_desc :: int

text \<open>\<^verbatim>\<open>DylibCommandStruct\<close>: \<^verbatim>\<open>fileoff\<close> and \<^verbatim>\<open>dylib.name.offset\<close>.\<close>

record dylib_command_struct =
  fileoff :: int
  dylib_name_offset :: int

record macho_binary =
  sections :: "string \<rightharpoonup> macho_section"
  platform_word_type :: word_type
  get_virtual_base :: int
  get_content_from_virtual_address :: "int \<Rightarrow> nat \<Rightarrow> byte list option"
  get_full_string_from_start_address :: "int \<Rightarrow> bool \<Rightarrow> string option"
  file_offset_for_virtual_address :: "int \<Rightarrow> int option"
  read_ObjcClassRawStruct :: "int \<Rightarrow> objc_class_raw_struct option"
  read_ObjcDataRawStruct :: "int \<Rightarrow> objc_data_raw_struct option"
  read_ObjcMethodListStruct :: "int \<Rightarrow> objc_method_list_struct option"
  read_ObjcMethodStruct :: "int \<Rightarrow> objc_method_struct option"
  symtab_stroff :: int
  symtab_contents :: "nlist_struct list"
  dysymtab_iundefsym :: int
  dysymtab_nundefsym :: int
  load_dylib_commands :: "dylib_command_struct list"

text \<open>
  Python's \<^verbatim>\<open>xs[i]\<close>: a negative index counts from the end, and an index out of range
  raises \<^verbatim>\<open>IndexError\<close>.
\<close>

definition py_index :: "'a list \<Rightarrow> int \<Rightarrow> 'a option" where
  "py_index xs i =
     (let n = int (length xs); j = (if i < 0 then n + i else i)
      in if 0 \<le> j \<and> j < n then Some (xs ! nat j) else None)"

text \<open>Python's \<^verbatim>\<open>range(n)\<close>, empty when \<^verbatim>\<open>n\<close> is not positive.\<close>

definition py_range :: "int \<Rightarrow> int list" where
  "py_range n = map int [0..<nat n]"

subsection \<open>Step 1: selrefs\<close>

text \<open>
  Both passes over a section compute their entry count as
  \<^verbatim>\<open>int(size / sizeof(binary_word))\<close>. Under Python 3 the operator \<^verbatim>\<open>/\<close> on two
  integers is true division: its value is the float nearest to the exact quotient, ties
  going to the even significand, and \<^verbatim>\<open>OverflowError\<close> is raised when that float would
  be \<open>2 ^ 1024\<close> or more; \<^verbatim>\<open>int\<close> then drops the fraction. A float has 53
  significant bits. The divisor here is \<^verbatim>\<open>sizeof\<close> of a word type, 4 or 8, and
  dividing by a power of two only changes the exponent, so the quotient is the float nearest
  to the dividend, divided exactly. A divisor of 0 raises \<^verbatim>\<open>ZeroDivisionError\<close>.
\<close>

fun bit_length :: "nat \<Rightarrow> nat" where
  "bit_length n = (if n = 0 then 0 else Suc (bit_length (n div 2)))"

declare bit_length.simps [simp del]

text \<open>The float nearest to a natural number, as a natural number.\<close>

definition round_to_float :: "nat \<Rightarrow> nat" where
  "round_to_float a =
     (if a < 2 ^ 53 then a
      else (let e = bit_length a - 53; q = a div 2 ^ e; r = a mod 2 ^ e
            in if 2 * r < 2 ^ e \<or> (2 * r = 2 ^ e \<and> even q) then q * 2 ^ e
               else (q + 1) * 2 ^ e))"

text \<open>\<^verbatim>\<open>int(a / w)\<close> for a divisor \<open>w\<close> that is a power of two.\<close>

definition py_int_true_div :: "nat \<Rightarrow> nat \<Rightarrow> nat option" where
  "py_int_true_div a w =
     (let x = round_to_float a
      in if w = 0 \<or> 2 ^ 1024 * w \<le> x then None else Some (x div w))"

text \<open>
  \<^verbatim>\<open>_parse_selrefs\<close>. (\<^verbatim>\<open>log_long_parse\<close> only emits a warning and returns nothing;
  it is left out.) The loop appends one selref per index.
\<close>

fun parse_selrefs_loop ::
  "macho_binary \<Rightarrow> macho_section \<Rightarrow> nat list \<Rightarrow> objc_selref list \<Rightarrow> objc_selref list option"
where
  "parse_selrefs_loop b selref_sect [] selrefs = Some selrefs"
| "parse_selrefs_loop b selref_sect (i # rest) selrefs =
     (let binary_word = platform_word_type b;
          selref_addr = address selref_sect + int (i * sizeof binary_word)
      in case get_content_from_virtual_address b selref_addr (sizeof binary_word) of
           None \<Rightarrow> None
         | Some selref_val_bytes \<Rightarrow>
            (case from_buffer binary_word selref_val_bytes of
               None \<Rightarrow> None
             | Some selref_val \<Rightarrow>
                (case get_full_string_from_start_address b selref_val True of
                   None \<Rightarrow> None
                 | Some selref_contents \<Rightarrow>
                     parse_selrefs_loop b selref_sect rest
                       (selrefs @ [ObjcSelref selref_addr selref_val selref_contents]))))"

definition parse_selrefs :: "macho_binary \<Rightarrow> objc_selref list option" where
  "parse_selrefs b =
     (case sections b ''__objc_selrefs'' of
        None \<Rightarrow> Some []
      | Some selref_sect \<Rightarrow>
          (case py_int_true_div (cmd_size selref_sect) (sizeof (platform_word_type b)) of
             None \<Rightarrow> None
           | Some entry_count \<Rightarrow> parse_selrefs_loop b selref_sect [0..<entry_count] []))"

subsection \<open>Selectors of one \<^verbatim>\<open>__objc_data\<close> entry\<close>

text \<open>
  \<^verbatim>\<open>ObjcDataEntryParser\<close>. Its constructor builds \<^verbatim>\<open>_selref_pointer_map\<close>, a dictionary
  from each selref's destination to the selref, by assignment in list order: a later selref
  replaces an earlier one of the same destination.
\<close>

record objc_data_entry_parser =
  dep_binary :: macho_binary
  dep_selrefs :: "objc_selref list"
  dep_objc_data_raw_struct :: objc_data_raw_struct
  dep_selref_pointer_map :: "int \<rightharpoonup> objc_selref"

definition build_selref_pointer_map :: "objc_selref list \<Rightarrow> (int \<rightharpoonup> objc_selref)" where
  "build_selref_pointer_map selref_list =
     fold (\<lambda>selref m. m(destination_address selref \<mapsto> selref)) selref_list Map.empty"

definition ObjcDataEntryParser ::
  "macho_binary \<Rightarrow> objc_selref list \<Rightarrow> objc_data_raw_struct \<Rightarrow> objc_data_entry_parser"
where
  "ObjcDataEntryParser b selref_list raw =
     \<lparr>dep_binary = b, dep_selrefs = selref_list, dep_objc_data_raw_struct = raw,
      dep_selref_pointer_map = build_selref_pointer_map selref_list\<rparr>"

definition get_selref_for_objc_method ::
  "objc_data_entry_parser \<Rightarrow> objc_method_struct \<Rightarrow> objc_selref option"
where
  "get_selref_for_objc_method self objc_method =
     (let name_ptr = method_name objc_method
      in case dep_selref_pointer_map self name_ptr of None \<Rightarrow> None | Some selref \<Rightarrow> Some selref)"

text \<open>
  \<^verbatim>\<open>_get_selectors_from_methlist\<close>: the loop over \<^verbatim>\<open>range(methlist.methcount)\<close>, with the
  running file offset \<^verbatim>\<open>method_entry_off\<close> and the list built so far.
\<close>

fun get_selectors_from_methlist_loop ::
  "objc_data_entry_parser \<Rightarrow> int list \<Rightarrow> int \<Rightarrow> objc_selector list \<Rightarrow> objc_selector list option"
where
  "get_selectors_from_methlist_loop self [] method_entry_off sels = Some sels"
| "get_selectors_from_methlist_loop self (i # rest) method_entry_off sels =
     (case read_ObjcMethodStruct (dep_binary self) method_entry_off of
        None \<Rightarrow> None
      | Some raw_ent \<Rightarrow>
         (let method_ent =
                raw_ent\<lparr>method_implementation := method_implementation raw_ent AND NOT 3\<rparr>
          in case get_full_string_from_start_address (dep_binary self)
                    (method_name method_ent) True of
               None \<Rightarrow> None
             | Some symbol_name \<Rightarrow>
                (let selref = get_selref_for_objc_method self method_ent;
                     selector =
                       ObjcSelector symbol_name selref (Some (method_implementation method_ent))
                 in get_selectors_from_methlist_loop self rest
                      (method_entry_off + method_sizeof method_ent) (sels @ [selector]))))"

definition get_selectors_from_methlist ::
  "objc_data_entry_parser \<Rightarrow> objc_method_list_struct \<Rightarrow> int \<Rightarrow> objc_selector list option"
where
  "get_selectors_from_methlist self methlist methlist_file_ptr =
     get_selectors_from_methlist_loop self (py_range (methcount methlist))
       (methlist_file_ptr + methlist_sizeof methlist) []"

text \<open>
  \<^verbatim>\<open>_get_methlist\<close> returns \<^verbatim>\<open>None\<close> (here \<open>Some None\<close>) when \<^verbatim>\<open>base_methods\<close> is 0,
  and the method list with its file offset otherwise.
\<close>

definition get_methlist ::
  "objc_data_entry_parser \<Rightarrow> (objc_method_list_struct \<times> int) option option"
where
  "get_methlist self =
     (let b = dep_binary self; raw = dep_objc_data_raw_struct self
      in if base_methods raw = 0 then Some None
         else case file_offset_for_virtual_address b (base_methods raw) of
                None \<Rightarrow> None
              | Some methlist_file_ptr \<Rightarrow>
                 (case read_ObjcMethodListStruct b methlist_file_ptr of
                    None \<Rightarrow> None
                  | Some methlist \<Rightarrow> Some (Some (methlist, methlist_file_ptr))))"

definition get_selectors :: "objc_data_entry_parser \<Rightarrow> objc_selector list option" where
  "get_selectors self =
     (case get_methlist self of
        None \<Rightarrow> None
      | Some None \<Rightarrow> Some []
      | Some (Some (methlist, methlist_file_ptr)) \<Rightarrow>
          get_selectors_from_methlist self methlist methlist_file_ptr)"

subsection \<open>Step 2: classes\<close>

text \<open>
  The calls of \<^verbatim>\<open>DebugUtil.log\<close> are kept as a trace of events: a function that logs
  returns the events it emitted, in order, beside its result.
\<close>

datatype log_event =
    LogParsingObjcRuntimeInfo
  | LogStep1ParsingSelrefs
  | LogStep2ParsingClasses
  | LogResolvingSymbolNames
  | LogCrossReferencing
  | LogParsingSelectorsForClass string
  | LogInvalidObjcDataRaw int int

text \<open>Python's \<^verbatim>\<open>xs[lo:hi]\<close> for indices that are not negative.\<close>

definition py_slice :: "'a list \<Rightarrow> nat \<Rightarrow> nat \<Rightarrow> 'a list" where
  "py_slice xs lo hi = take (hi - lo) (drop lo xs)"

fun get_classlist_pointers_loop ::
  "word_type \<Rightarrow> byte list \<Rightarrow> nat list \<Rightarrow> nat \<Rightarrow> int list \<Rightarrow> int list option"
where
  "get_classlist_pointers_loop binary_word classlist_data [] classlist_off entries = Some entries"
| "get_classlist_pointers_loop binary_word classlist_data (i # rest) classlist_off entries =
     (let data_end = classlist_off + sizeof binary_word
      in case from_buffer binary_word (py_slice classlist_data classlist_off data_end) of
           None \<Rightarrow> None
         | Some val \<Rightarrow>
             get_classlist_pointers_loop binary_word classlist_data rest
               (classlist_off + sizeof binary_word) (entries @ [val]))"

definition get_classlist_pointers :: "macho_binary \<Rightarrow> int list option" where
  "get_classlist_pointers b =
     (case sections b ''__objc_classlist'' of
        None \<Rightarrow> Some []
      | Some sect \<Rightarrow>
         (let classlist_data = content sect;
              binary_word = platform_word_type b
          in case py_int_true_div (length classlist_data) (sizeof binary_word) of
               None \<Rightarrow> None
             | Some classlist_size \<Rightarrow>
                 get_classlist_pointers_loop binary_word classlist_data
                   [0..<classlist_size] 0 []))"

definition get_objc_class_from_classlist_pointer ::
  "macho_binary \<Rightarrow> int \<Rightarrow> objc_class_raw_struct option"
where
  "get_objc_class_from_classlist_pointer b entry_location =
     (case read_ObjcClassRawStruct b entry_location of
        None \<Rightarrow> None
      | Some class_entry \<Rightarrow> Some (class_entry\<lparr>data := data class_entry AND NOT 3\<rparr>))"

text \<open>
  \<^verbatim>\<open>_get_objc_data_from_objc_class\<close> returns \<^verbatim>\<open>None\<close> (here the first component is
  \<open>None\<close>) and logs when the name pointer lies below the virtual base.
\<close>

definition get_objc_data_from_objc_class ::
  "macho_binary \<Rightarrow> objc_class_raw_struct \<Rightarrow> (objc_data_raw_struct option \<times> log_event list) option"
where
  "get_objc_data_from_objc_class b objc_class =
     (case read_ObjcDataRawStruct b (data objc_class) of
        None \<Rightarrow> None
      | Some data_entry \<Rightarrow>
          if data_name data_entry < get_virtual_base b
          then Some (None, [LogInvalidObjcDataRaw (data objc_class) (data_name data_entry)])
          else Some (Some data_entry, []))"

definition parse_objc_data_entry ::
  "macho_binary \<Rightarrow> objc_selref list \<Rightarrow> objc_data_raw_struct \<Rightarrow> (objc_class \<times> log_event list) option"
where
  "parse_objc_data_entry b selref_list objc_data_raw =
     (let data_parser = ObjcDataEntryParser b selref_list objc_data_raw
      in case get_full_string_from_start_address b (data_name objc_data_raw) True of
           None \<Rightarrow> None
         | Some nm \<Rightarrow>
            (case get_selectors data_parser of
               None \<Rightarrow> None
             | Some sels \<Rightarrow> Some (ObjcClass nm sels, [LogParsingSelectorsForClass nm])))"

text \<open>
  The loop of \<^verbatim>\<open>_parse_static_objc_runtime_info\<close> over the classlist pointers. A raw class
  structure and a tuple are always true in Python, so the two \<^verbatim>\<open>if\<close>s of the body
  only test for \<^verbatim>\<open>None\<close>.
\<close>

fun parse_classes_loop ::
  "macho_binary \<Rightarrow> objc_selref list \<Rightarrow> int list \<Rightarrow> objc_class list \<Rightarrow> log_event list
     \<Rightarrow> (objc_class list \<times> log_event list) option"
where
  "parse_classes_loop b selref_list [] parsed lg = Some (parsed, lg)"
| "parse_classes_loop b selref_list (ptr # rest) parsed lg =
     (case get_objc_class_from_classlist_pointer b ptr of
        None \<Rightarrow> None
      | Some objc_class \<Rightarrow>
         (case get_objc_data_from_objc_class b objc_class of
            None \<Rightarrow> None
          | Some (None, lg1) \<Rightarrow> parse_classes_loop b selref_list rest parsed (lg @ lg1)
          | Some (Some objc_data_struct, lg1) \<Rightarrow>
             (case parse_objc_data_entry b selref_list objc_data_struct of
                None \<Rightarrow> None
              | Some (c, lg2) \<Rightarrow>
                  parse_classes_loop b selref_list rest (parsed @ [c]) (lg @ lg1 @ lg2))))"

definition parse_static_objc_runtime_info ::
  "macho_binary \<Rightarrow> objc_selref list \<Rightarrow> (objc_class list \<times> log_event list) option"
where
  "parse_static_objc_runtime_info b selref_list =
     (case get_classlist_pointers b of
        None \<Rightarrow> None
      | Some classlist_pointers \<Rightarrow>
          parse_classes_loop b selref_list classlist_pointers [] [LogCrossReferencing])"

subsection \<open>Symbols of linked dylibs\<close>

definition library_ordinal_from_n_desc :: "int \<Rightarrow> int" where
  "library_ordinal_from_n_desc n = (drop_bit 8 n) AND 255"

definition dylib_from_library_ordinal :: "macho_binary \<Rightarrow> int \<Rightarrow> dylib_command_struct option" where
  "dylib_from_library_ordinal b ordinal = py_index (load_dylib_commands b) (ordinal - 1)"

fun parse_linked_dylib_symbols_loop ::
  "macho_binary \<Rightarrow> int list \<Rightarrow> (string \<rightharpoonup> string) \<Rightarrow> (string \<rightharpoonup> string) option"
where
  "parse_linked_dylib_symbols_loop b [] syms_to_dylib_path = Some syms_to_dylib_path"
| "parse_linked_dylib_symbols_loop b (undef_sym_idx # rest) syms_to_dylib_path =
     (let symtab_idx = dysymtab_iundefsym b + undef_sym_idx
      in case py_index (symtab_contents b) symtab_idx of
           None \<Rightarrow> None
         | Some nl \<Rightarrow>
            (let strtab_idx = n_strx nl;
                 string_file_address = symtab_stroff b + strtab_idx
             in case get_full_string_from_start_address b string_file_address False of
                  None \<Rightarrow> None
                | Some symbol_name \<Rightarrow>
                   (let library_ordinal = library_ordinal_from_n_desc (n_desc nl)
                    in case dylib_from_library_ordinal b library_ordinal of
                         None \<Rightarrow> None
                       | Some source_dylib \<Rightarrow>
                          (let source_name_addr =
                                 fileoff source_dylib + dylib_name_offset source_dylib
                                   + get_virtual_base b
                           in case get_full_string_from_start_address b source_name_addr True of
                                None \<Rightarrow> None
                              | Some source_name \<Rightarrow>
                                  parse_linked_dylib_symbols_loop b rest
                                    (syms_to_dylib_path(symbol_name \<mapsto> source_name))))))"

definition parse_linked_dylib_symbols :: "macho_binary \<Rightarrow> (string \<rightharpoonup> string) option" where
  "parse_linked_dylib_symbols b =
     parse_linked_dylib_symbols_loop b (py_range (dysymtab_nundefsym b)) Map.empty"

subsection \<open>The parser object and its queries\<close>

record objc_runtime_data_parser =
  binary :: macho_binary
  private_selrefs :: "objc_selref list"
  classes :: "objc_class list"
  private_sym_to_dylib_path :: "string \<rightharpoonup> string"

definition ObjcRuntimeDataParser ::
  "macho_binary \<Rightarrow> (objc_runtime_data_parser \<times> log_event list) option"
where
  "ObjcRuntimeDataParser b =
     (case parse_selrefs b of
        None \<Rightarrow> None
      | Some srs \<Rightarrow>
         (case parse_static_objc_runtime_info b srs of
            None \<Rightarrow> None
          | Some (cls, lg) \<Rightarrow>
             (case parse_linked_dylib_symbols b of
                None \<Rightarrow> None
              | Some m \<Rightarrow>
                  Some (\<lparr>binary = b, private_selrefs = srs, classes = cls,
                         private_sym_to_dylib_path = m\<rparr>,
                        [LogParsingObjcRuntimeInfo, LogStep1ParsingSelrefs, LogStep2ParsingClasses]
                          @ lg @ [LogResolvingSymbolNames]))))"

definition path_for_external_symbol :: "objc_runtime_data_parser \<Rightarrow> string \<Rightarrow> string option" where
  "path_for_external_symbol self symbol = private_sym_to_dylib_path self symbol"

text \<open>
  \<^verbatim>\<open>selector_for_selref\<close>: the two nested loops return the first selector whose selref has
  the address; the address may be \<^verbatim>\<open>None\<close>, which equals no integer.
\<close>

fun selector_for_selref_in_class :: "objc_selector list \<Rightarrow> int option \<Rightarrow> objc_selector option" where
  "selector_for_selref_in_class [] selref_addr = None"
| "selector_for_selref_in_class (sel # rest) selref_addr =
     (case sel_selref sel of
        None \<Rightarrow> selector_for_selref_in_class rest selref_addr
      | Some r \<Rightarrow>
          if Some (source_address r) = selref_addr then Some sel
          else selector_for_selref_in_class rest selref_addr)"

fun selector_for_selref_in_classes :: "objc_class list \<Rightarrow> int option \<Rightarrow> objc_selector option" where
  "selector_for_selref_in_classes [] selref_addr = None"
| "selector_for_selref_in_classes (objc_class # rest) selref_addr =
     (case selector_for_selref_in_class (selectors objc_class) selref_addr of
        Some sel \<Rightarrow> Some sel
      | None \<Rightarrow> selector_for_selref_in_classes rest selref_addr)"

definition selector_for_selref :: "objc_runtime_data_parser \<Rightarrow> int option \<Rightarrow> objc_selector option" where
  "selector_for_selref self selref_addr =
     (case selector_for_selref_in_classes (classes self) selref_addr of
        Some sel \<Rightarrow> Some sel
      | None \<Rightarrow>
         (case filter (\<lambda>x. Some (source_address x) = selref_addr) (private_selrefs self) of
            [] \<Rightarrow> None
          | s # _ \<Rightarrow> Some (ObjcSelector (selector_literal s) (Some s) None)))"


subsection \<open>Notions used in the statements\<close>

text \<open>All selectors of the parsed classes, in class order and then in method-list order.\<close>

definition class_selectors :: "objc_runtime_data_parser \<Rightarrow> objc_selector list" where
  "class_selectors self = concat (map selectors (classes self))"

text \<open>A selector carries a selref whose source address is the given one.\<close>

definition carries_selref_at :: "int option \<Rightarrow> objc_selector \<Rightarrow> bool" where
  "carries_selref_at selref_addr sel =
     (case sel_selref sel of None \<Rightarrow> False | Some r \<Rightarrow> Some (source_address r) = selref_addr)"

text \<open>
  The file offset of the \<open>i\<close>-th entry of a method list whose first entry is at \<open>first\<close>:
  each entry starts where the one before it ends.
\<close>

fun nth_method_entry_off :: "macho_binary \<Rightarrow> int \<Rightarrow> nat \<Rightarrow> int option" where
  "nth_method_entry_off b first 0 = Some first"
| "nth_method_entry_off b first (Suc i) =
     (case read_ObjcMethodStruct b first of
        None \<Rightarrow> None
      | Some ent \<Rightarrow> nth_method_entry_off b (first + method_sizeof ent) i)"

subsection \<open>A small binary\<close>

text \<open>
  A 64-bit image with virtual base 4096. \<^verbatim>\<open>__objc_selrefs\<close> holds two selrefs, to
  \<^verbatim>\<open>foo\<close> and \<^verbatim>\<open>bar:\<close>. \<^verbatim>\<open>__objc_classlist\<close> holds two pointers: the class
  \<^verbatim>\<open>DTLabel\<close>, which implements \<^verbatim>\<open>foo\<close> and \<^verbatim>\<open>baz\<close> (the latter with a raw
  implementation field of 2), and a degenerate entry whose name pointer is 17. One
  undefined symbol, \<^verbatim>\<open>_objc_msgSend\<close>, comes from the first of the linked dylibs.
\<close>

definition example_strings :: "int \<Rightarrow> bool \<Rightarrow> string option" where
  "example_strings a virtual =
     (if virtual then
        (if a = 12288 then Some ''foo''
         else if a = 12296 then Some ''bar:''
         else if a = 12304 then Some ''baz''
         else if a = 12320 then Some ''DTLabel''
         else if a = 4632 then Some ''/usr/lib/libobjc.A.dylib''
         else if a = 4696 then Some ''/usr/lib/libSystem.B.dylib''
         else None)
      else (if a = 2049 then Some ''_objc_msgSend'' else None))"

definition example_content :: "int \<Rightarrow> nat \<Rightarrow> byte list option" where
  "example_content a n =
     (if a = 8192 \<and> n = 8 then Some [0, 48, 0, 0, 0, 0, 0, 0]
      else if a = 8200 \<and> n = 8 then Some [8, 48, 0, 0, 0, 0, 0, 0]
      else None)"

definition example_classes :: "int \<Rightarrow> objc_class_raw_struct option" where
  "example_classes a =
     (if a = 16384 then Some \<lparr>data = 20481\<rparr>
      else if a = 16400 then Some \<lparr>data = 20544\<rparr>
      else None)"

definition example_datas :: "int \<Rightarrow> objc_data_raw_struct option" where
  "example_datas a =
     (if a = 20480 then Some \<lparr>data_name = 12320, base_methods = 24576\<rparr>
      else if a = 20544 then Some \<lparr>data_name = 17, base_methods = 0\<rparr>
      else None)"

definition example_methlists :: "int \<Rightarrow> objc_method_list_struct option" where
  "example_methlists a =
     (if a = 20480 then Some \<lparr>methcount = 2, methlist_sizeof = 8\<rparr> else None)"

definition example_methods :: "int \<Rightarrow> objc_method_struct option" where
  "example_methods a =
     (if a = 20488
      then Some \<lparr>method_name = 12288, method_implementation = 28673, method_sizeof = 24\<rparr>
      else if a = 20512
      then Some \<lparr>method_name = 12304, method_implementation = 2, method_sizeof = 24\<rparr>
      else None)"

definition example_file_offset :: "int \<Rightarrow> int option" where
  "example_file_offset a = (if 4096 \<le> a then Some (a - 4096) else None)"

definition example_selref_sect :: macho_section where
  "example_selref_sect =
     \<lparr>address = 8192, cmd_size = 16,
      content = [0, 48, 0, 0, 0, 0, 0, 0, 8, 48, 0, 0, 0, 0, 0, 0]\<rparr>"

definition example_classlist_sect :: macho_section where
  "example_classlist_sect =
     \<lparr>address = 8448, cmd_size = 16,
      content = [0, 64, 0, 0, 0, 0, 0, 0, 16, 64, 0, 0, 0, 0, 0, 0]\<rparr>"

definition example_binary :: macho_binary where
  "example_binary =
     \<lparr>sections = [''__objc_selrefs'' \<mapsto> example_selref_sect,
                   ''__objc_classlist'' \<mapsto> example_classlist_sect],
      platform_word_type = C_uint64,
      get_virtual_base = 4096,
      get_content_from_virtual_address = example_content,
      get_full_string_from_start_address = example_strings,
      file_offset_for_virtual_address = example_file_offset,
      read_ObjcClassRawStruct = example_classes,
      read_ObjcDataRawStruct = example_datas,
      read_ObjcMethodListStruct = example_methlists,
      read_ObjcMethodStruct = example_methods,
      symtab_stroff = 2048,
      symtab_contents = [\<lparr>n_strx = 0, n_desc = 0\<rparr>, \<lparr>n_strx = 1, n_desc = 256\<rparr>],
      dysymtab_iundefsym = 1,
      dysymtab_nundefsym = 1,
      load_dylib_commands =
        [\<lparr>fileoff = 512, dylib_name_offset = 24\<rparr>, \<lparr>fileoff = 576, dylib_name_offset = 24\<rparr>]\<rparr>"

definition example_selref_foo :: objc_selref where
  "example_selref_foo =
     \<lparr>source_address = 8192, destination_address = 12288, selector_literal = ''foo''\<rparr>"

definition example_selref_bar :: objc_selref where
  "example_selref_bar =
     \<lparr>source_address = 8200, destination_address = 12296, selector_literal = ''bar:''\<rparr>"

definition example_sel_foo :: objc_selector where
  "example_sel_foo =
     \<lparr>sel_name = ''foo'', sel_selref = Some example_selref_foo,
      sel_implementation = Some 28672, is_external_definition = False\<rparr>"

definition example_sel_baz :: objc_selector where
  "example_sel_baz =
     \<lparr>sel_name = ''baz'', sel_selref = None,
      sel_implementation = Some 0, is_external_definition = True\<rparr>"

definition example_parser :: objc_runtime_data_parser where
  "example_parser =
     \<lparr>binary = example_binary,
      private_selrefs = [example_selref_foo, example_selref_bar],
      classes = [\<lparr>class_name = ''DTLabel'', selectors = [example_sel_foo, example_sel_baz]\<rparr>],
      private_sym_to_dylib_path = [''_objc_msgSend'' \<mapsto> ''/usr/lib/libobjc.A.dylib'']\<rparr>"

definition example_log :: "log_event list" where
  "example_log =
     [LogParsingObjcRuntimeInfo, LogStep1ParsingSelrefs, LogStep2ParsingClasses,
      LogCrossReferencing, LogParsingSelectorsForClass ''DTLabel'',
      LogInvalidObjcDataRaw 20544 17, LogResolvingSymbolNames]"







text \<open>
  The image with a flat namespace: the undefined symbol \<^verbatim>\<open>_objc_msgSend\<close> has
  \<^verbatim>\<open>n_desc = 0\<close>, that is the library ordinal 0. The parser that the construction
  returns on it differs from that of the small binary in the path of the symbol.
\<close>

definition flat_namespace_binary :: macho_binary where
  "flat_namespace_binary =
     example_binary
       \<lparr>symtab_contents := [\<lparr>n_strx = 0, n_desc = 0\<rparr>, \<lparr>n_strx = 1, n_desc = 0\<rparr>]\<rparr>"

definition flat_namespace_parser :: objc_runtime_data_parser where
  "flat_namespace_parser =
     example_parser
       \<lparr>binary := flat_namespace_binary,
        private_sym_to_dylib_path := [''_objc_msgSend'' \<mapsto> ''/usr/lib/libSystem.B.dylib'']\<rparr>"

section \<open>Properties\<close>

subsection \<open>The selrefs pass\<close>

lemma sizeof_pos: "0 < sizeof t"
  by (cases t) simp_all

lemma parse_selrefs_loop_entries:
  "parse_selrefs_loop b sect idxs acc = Some r \<Longrightarrow>
     \<exists>new. r = acc @ new \<and>
       list_all2 (\<lambda>i e.
          source_address e = address sect + int (i * sizeof (platform_word_type b)) \<and>
          (\<exists>bytes. get_content_from_virtual_address b (source_address e)
                      (sizeof (platform_word_type b)) = Some bytes \<and>
                   from_buffer (platform_word_type b) bytes = Some (destination_address e)) \<and>
          get_full_string_from_start_address b (destination_address e) True
            = Some (selector_literal e)) idxs new"
proof (induction idxs arbitrary: acc)
  case Nil
  then show ?case by simp
next
  case (Cons i rest)
  from Cons.prems obtain bytes v lit where
    rd: "get_content_from_virtual_address b (address sect + int (i * sizeof (platform_word_type b)))
           (sizeof (platform_word_type b)) = Some bytes"
    and fb: "from_buffer (platform_word_type b) bytes = Some v"
    and st: "get_full_string_from_start_address b v True = Some lit"
    and rec: "parse_selrefs_loop b sect rest
                (acc @ [ObjcSelref (address sect + int (i * sizeof (platform_word_type b))) v lit])
              = Some r"
    by (auto simp: Let_def split: option.splits)
  from Cons.IH [OF rec] obtain new where
    r: "r = (acc @ [ObjcSelref (address sect + int (i * sizeof (platform_word_type b))) v lit]) @ new"
    and all: "list_all2 (\<lambda>i e.
          source_address e = address sect + int (i * sizeof (platform_word_type b)) \<and>
          (\<exists>bytes. get_content_from_virtual_address b (source_address e)
                      (sizeof (platform_word_type b)) = Some bytes \<and>
                   from_buffer (platform_word_type b) bytes = Some (destination_address e)) \<and>
          get_full_string_from_start_address b (destination_address e) True
            = Some (selector_literal e)) rest new"
    by blast
  show ?case
    apply (rule exI [of _ "ObjcSelref (address sect + int (i * sizeof (platform_word_type b))) v lit # new"])
    using r all rd fb st by (simp add: ObjcSelref_def)
qed

lemma py_int_true_div_exact:
  assumes "a < 2 ^ 53" and "0 < w"
  shows "py_int_true_div a w = Some (a div w)"
proof -
  have "(2::nat) ^ 53 \<le> 2 ^ 1024" by (rule power_increasing) simp_all
  also have "(2::nat) ^ 1024 \<le> 2 ^ 1024 * w" using assms(2) by simp
  finally have "a < 2 ^ 1024 * w" using assms(1) by simp
  with assms show ?thesis by (simp add: py_int_true_div_def round_to_float_def)
qed

lemma py_int_true_div_small:
  "py_int_true_div 16 8 = Some 2"
  by (simp add: py_int_true_div_exact)

lemma parse_selrefs_entries:
  assumes sect: "sections b ''__objc_selrefs'' = Some sect"
    and ok: "parse_selrefs b = Some srs"
  shows "py_int_true_div (cmd_size sect) (sizeof (platform_word_type b)) = Some (length srs)"
    and "i < length srs \<Longrightarrow>
          source_address (srs ! i) = address sect + int i * int (sizeof (platform_word_type b))"
    and "i < length srs \<Longrightarrow>
          \<exists>bytes. get_content_from_virtual_address b (source_address (srs ! i))
                      (sizeof (platform_word_type b)) = Some bytes \<and>
                   from_buffer (platform_word_type b) bytes = Some (destination_address (srs ! i))"
    and "i < length srs \<Longrightarrow>
          get_full_string_from_start_address b (destination_address (srs ! i)) True
            = Some (selector_literal (srs ! i))"
proof -
  from sect ok obtain n where
    n: "py_int_true_div (cmd_size sect) (sizeof (platform_word_type b)) = Some n"
    and lp: "parse_selrefs_loop b sect [0..<n] [] = Some srs"
    by (auto simp: parse_selrefs_def split: option.splits)
  from parse_selrefs_loop_entries [OF lp]
  have all: "list_all2 (\<lambda>i e.
          source_address e = address sect + int (i * sizeof (platform_word_type b)) \<and>
          (\<exists>bytes. get_content_from_virtual_address b (source_address e)
                      (sizeof (platform_word_type b)) = Some bytes \<and>
                   from_buffer (platform_word_type b) bytes = Some (destination_address e)) \<and>
          get_full_string_from_start_address b (destination_address e) True
            = Some (selector_literal e)) [0..<n] srs"
    by simp
  then have len: "length srs = n"
    by (auto dest: list_all2_lengthD)
  show "py_int_true_div (cmd_size sect) (sizeof (platform_word_type b)) = Some (length srs)"
    using n len by simp
  {
    assume i: "i < length srs"
    with len have "[0..<n] ! i = i" by simp
    with list_all2_nthD2 [OF all i]
    have a: "source_address (srs ! i) = address sect + int i * int (sizeof (platform_word_type b))"
      and b: "\<exists>bytes. get_content_from_virtual_address b (source_address (srs ! i))
                      (sizeof (platform_word_type b)) = Some bytes \<and>
                   from_buffer (platform_word_type b) bytes = Some (destination_address (srs ! i))"
      and c: "get_full_string_from_start_address b (destination_address (srs ! i)) True
            = Some (selector_literal (srs ! i))"
      by auto
    from a b c show "source_address (srs ! i) = address sect + int i * int (sizeof (platform_word_type b))"
      and "\<exists>bytes. get_content_from_virtual_address b (source_address (srs ! i))
                      (sizeof (platform_word_type b)) = Some bytes \<and>
                   from_buffer (platform_word_type b) bytes = Some (destination_address (srs ! i))"
      and "get_full_string_from_start_address b (destination_address (srs ! i)) True
            = Some (selector_literal (srs ! i))"
      by blast+
  }
qed



lemma parse_selrefs_missing:
  "sections b ''__objc_selrefs'' = None \<Longrightarrow> parse_selrefs b = Some []"
  by (simp add: parse_selrefs_def)

lemma parse_selrefs_source_strict:
  assumes ok: "parse_selrefs b = Some srs" and ij: "i < j" and j: "j < length srs"
  shows "source_address (srs ! i) < source_address (srs ! j)"
proof (cases "sections b ''__objc_selrefs''")
  case None
  with ok j show ?thesis by (simp add: parse_selrefs_missing)
next
  case (Some sect)
  from ij j have i: "i < length srs" by simp
  have "int i * int (sizeof (platform_word_type b)) < int j * int (sizeof (platform_word_type b))"
    using ij sizeof_pos [of "platform_word_type b"] by simp
  then show ?thesis
    using parse_selrefs_entries(2) [OF Some ok i] parse_selrefs_entries(2) [OF Some ok j] by simp
qed


lemma parse_selrefs_distinct:
  assumes ok: "parse_selrefs b = Some srs"
  shows "distinct (map source_address srs)"
proof -
  have "\<forall>i j. i < length srs \<longrightarrow> j < length srs \<longrightarrow> i \<noteq> j \<longrightarrow>
          source_address (srs ! i) \<noteq> source_address (srs ! j)"
  proof (intro allI impI)
    fix i j assume i: "i < length srs" and j: "j < length srs" and ne: "i \<noteq> j"
    then consider "i < j" | "j < i" by linarith
    then show "source_address (srs ! i) \<noteq> source_address (srs ! j)"
      using parse_selrefs_source_strict [OF ok, of i j] parse_selrefs_source_strict [OF ok, of j i] i j
      by cases auto
  qed
  then show ?thesis by (simp add: distinct_conv_nth)
qed


lemma example_parse_selrefs:
  "parse_selrefs example_binary = Some [example_selref_foo, example_selref_bar]"
  by (simp add: parse_selrefs_def example_binary_def example_selref_sect_def example_content_def
      from_buffer_def example_strings_def ObjcSelref_def example_selref_foo_def
      example_selref_bar_def upt_rec py_int_true_div_small)





subsection \<open>The selref pointer map\<close>

lemma build_selref_pointer_map_snoc:
  "build_selref_pointer_map (xs @ [x]) = (build_selref_pointer_map xs)(destination_address x \<mapsto> x)"
  by (simp add: build_selref_pointer_map_def)

lemma build_selref_pointer_map_Some:
  "build_selref_pointer_map xs k = Some s \<Longrightarrow> s \<in> set xs \<and> destination_address s = k"
proof (induction xs rule: rev_induct)
  case Nil
  then show ?case by (simp add: build_selref_pointer_map_def)
next
  case (snoc x xs)
  then show ?case
    by (cases "destination_address x = k") (auto simp: build_selref_pointer_map_snoc)
qed

lemma build_selref_pointer_map_None:
  "(build_selref_pointer_map xs k = None) = (\<forall>s \<in> set xs. destination_address s \<noteq> k)"
proof (induction xs rule: rev_induct)
  case Nil
  then show ?case by (simp add: build_selref_pointer_map_def)
next
  case (snoc x xs)
  then show ?case
    by (cases "destination_address x = k") (auto simp: build_selref_pointer_map_snoc)
qed

lemma build_selref_pointer_map_append:
  "build_selref_pointer_map (xs @ ys) k =
     (case build_selref_pointer_map ys k of None \<Rightarrow> build_selref_pointer_map xs k | Some s \<Rightarrow> Some s)"
proof (induction ys rule: rev_induct)
  case Nil
  then show ?case by (simp add: build_selref_pointer_map_def)
next
  case (snoc y ys)
  have "build_selref_pointer_map (xs @ ys @ [y]) = 
        (build_selref_pointer_map (xs @ ys))(destination_address y \<mapsto> y)"
    using build_selref_pointer_map_snoc [of "xs @ ys" y] by simp
  with snoc show ?case
    by (cases "destination_address y = k") (auto simp: build_selref_pointer_map_snoc)
qed

lemma build_selref_pointer_map_last:
  assumes "\<forall>y \<in> set ys. destination_address y \<noteq> destination_address s"
  shows "build_selref_pointer_map (xs @ s # ys) (destination_address s) = Some s"
proof -
  from assms have n: "build_selref_pointer_map ys (destination_address s) = None"
    by (simp add: build_selref_pointer_map_None)
  have "build_selref_pointer_map ((xs @ [s]) @ ys) (destination_address s) = Some s"
    unfolding build_selref_pointer_map_append [of "xs @ [s]" ys] n
    by (simp add: build_selref_pointer_map_snoc)
  then show ?thesis by simp
qed

subsection \<open>Method lists\<close>

lemma mask_low_bits: "((v::int) AND NOT 3) AND 3 = 0"
  by (simp add: and.assoc)

lemma get_selref_for_objc_method_eq:
  "get_selref_for_objc_method self m = dep_selref_pointer_map self (method_name m)"
  by (simp add: get_selref_for_objc_method_def split: option.splits)

lemma get_selectors_from_methlist_loop_entries:
  "get_selectors_from_methlist_loop self idxs off acc = Some r \<Longrightarrow>
     \<exists>new. r = acc @ new \<and> length new = length idxs \<and>
       (\<forall>k < length idxs. \<exists>pos ent nm.
          nth_method_entry_off (dep_binary self) off k = Some pos \<and>
          read_ObjcMethodStruct (dep_binary self) pos = Some ent \<and>
          get_full_string_from_start_address (dep_binary self) (method_name ent) True = Some nm \<and>
          new ! k = ObjcSelector nm (dep_selref_pointer_map self (method_name ent))
                      (Some (method_implementation ent AND NOT 3)))"
proof (induction idxs arbitrary: off acc)
  case Nil
  then show ?case by simp
next
  case (Cons i rest)
  let ?b = "dep_binary self"
  from Cons.prems obtain ent nm where
    rd: "read_ObjcMethodStruct ?b off = Some ent"
    and st: "get_full_string_from_start_address ?b (method_name ent) True = Some nm"
    and rec: "get_selectors_from_methlist_loop self rest (off + method_sizeof ent)
                (acc @ [ObjcSelector nm (dep_selref_pointer_map self (method_name ent))
                          (Some (method_implementation ent AND NOT 3))]) = Some r"
    by (auto simp: Let_def get_selref_for_objc_method_eq split: option.splits)
  let ?s = "ObjcSelector nm (dep_selref_pointer_map self (method_name ent))
              (Some (method_implementation ent AND NOT 3))"
  from Cons.IH [OF rec] obtain new where
    r: "r = (acc @ [?s]) @ new" and len: "length new = length rest"
    and all: "\<forall>k < length rest. \<exists>pos ent' nm'.
          nth_method_entry_off ?b (off + method_sizeof ent) k = Some pos \<and>
          read_ObjcMethodStruct ?b pos = Some ent' \<and>
          get_full_string_from_start_address ?b (method_name ent') True = Some nm' \<and>
          new ! k = ObjcSelector nm' (dep_selref_pointer_map self (method_name ent'))
                      (Some (method_implementation ent' AND NOT 3))"
    by blast
  have "\<forall>k < length (i # rest). \<exists>pos ent' nm'.
          nth_method_entry_off ?b off k = Some pos \<and>
          read_ObjcMethodStruct ?b pos = Some ent' \<and>
          get_full_string_from_start_address ?b (method_name ent') True = Some nm' \<and>
          (?s # new) ! k = ObjcSelector nm' (dep_selref_pointer_map self (method_name ent'))
                      (Some (method_implementation ent' AND NOT 3))"
  proof (intro allI impI)
    fix k assume k: "k < length (i # rest)"
    show "\<exists>pos ent' nm'.
          nth_method_entry_off ?b off k = Some pos \<and>
          read_ObjcMethodStruct ?b pos = Some ent' \<and>
          get_full_string_from_start_address ?b (method_name ent') True = Some nm' \<and>
          (?s # new) ! k = ObjcSelector nm' (dep_selref_pointer_map self (method_name ent'))
                      (Some (method_implementation ent' AND NOT 3))"
    proof (cases k)
      case 0
      with rd st show ?thesis by simp
    next
      case (Suc k')
      with k have "k' < length rest" by simp
      with all Suc rd show ?thesis by simp
    qed
  qed
  with r len show ?case
    by (intro exI [of _ "?s # new"]) simp
qed

lemma get_selectors_from_methlist_entries:
  assumes "get_selectors_from_methlist self methlist ptr = Some sels"
  shows "length sels = nat (methcount methlist)"
    and "i < length sels \<Longrightarrow> \<exists>pos ent nm.
          nth_method_entry_off (dep_binary self) (ptr + methlist_sizeof methlist) i = Some pos \<and>
          read_ObjcMethodStruct (dep_binary self) pos = Some ent \<and>
          get_full_string_from_start_address (dep_binary self) (method_name ent) True = Some nm \<and>
          sels ! i = ObjcSelector nm (dep_selref_pointer_map self (method_name ent))
                      (Some (method_implementation ent AND NOT 3))"
proof -
  from assms have "get_selectors_from_methlist_loop self (py_range (methcount methlist))
       (ptr + methlist_sizeof methlist) [] = Some sels"
    by (simp add: get_selectors_from_methlist_def)
  from get_selectors_from_methlist_loop_entries [OF this]
  have len: "length sels = length (py_range (methcount methlist))"
    and all: "\<forall>k < length (py_range (methcount methlist)). \<exists>pos ent nm.
          nth_method_entry_off (dep_binary self) (ptr + methlist_sizeof methlist) k = Some pos \<and>
          read_ObjcMethodStruct (dep_binary self) pos = Some ent \<and>
          get_full_string_from_start_address (dep_binary self) (method_name ent) True = Some nm \<and>
          sels ! k = ObjcSelector nm (dep_selref_pointer_map self (method_name ent))
                      (Some (method_implementation ent AND NOT 3))"
    by auto
  from len show "length sels = nat (methcount methlist)"
    by (simp add: py_range_def)
  assume "i < length sels"
  with len all show "\<exists>pos ent nm.
          nth_method_entry_off (dep_binary self) (ptr + methlist_sizeof methlist) i = Some pos \<and>
          read_ObjcMethodStruct (dep_binary self) pos = Some ent \<and>
          get_full_string_from_start_address (dep_binary self) (method_name ent) True = Some nm \<and>
          sels ! i = ObjcSelector nm (dep_selref_pointer_map self (method_name ent))
                      (Some (method_implementation ent AND NOT 3))"
    by simp
qed

lemma get_selectors_cases:
  "get_selectors self = Some sels \<Longrightarrow>
     (base_methods (dep_objc_data_raw_struct self) = 0 \<and> sels = []) \<or>
     (\<exists>methlist ptr. base_methods (dep_objc_data_raw_struct self) \<noteq> 0 \<and>
        get_methlist self = Some (Some (methlist, ptr)) \<and>
        get_selectors_from_methlist self methlist ptr = Some sels)"
  by (auto simp: get_selectors_def get_methlist_def Let_def split: option.splits if_splits)

text \<open>Every selector of a data entry was built from a method entry of the binary.\<close>

lemma get_selectors_built:
  assumes "get_selectors self = Some sels" and "sel \<in> set sels"
  shows "\<exists>(ent :: objc_method_struct) nm.
          get_full_string_from_start_address (dep_binary self) (method_name ent) True = Some nm \<and>
          sel = ObjcSelector nm (dep_selref_pointer_map self (method_name ent))
                      (Some (method_implementation ent AND NOT 3))"
proof -
  from assms(2) obtain i where i: "i < length sels" and s: "sels ! i = sel"
    by (auto simp: in_set_conv_nth)
  from get_selectors_cases [OF assms(1)] i obtain methlist ptr where
    "get_selectors_from_methlist self methlist ptr = Some sels" by auto
  from get_selectors_from_methlist_entries(2) [OF this i] s show ?thesis by blast
qed

subsection \<open>The classlist pass\<close>

lemma parse_objc_data_entry_selectors:
  "parse_objc_data_entry b srs d = Some (c, l) \<Longrightarrow>
     get_selectors (ObjcDataEntryParser b srs d) = Some (selectors c)"
  by (auto simp: parse_objc_data_entry_def Let_def ObjcClass_def split: option.splits)

lemma parse_classes_loop_classes:
  "parse_classes_loop b srs ptrs acc lg = Some (cls, lg') \<Longrightarrow>
     \<exists>new. cls = acc @ new \<and>
       (\<forall>c \<in> set new. \<exists>d l. parse_objc_data_entry b srs d = Some (c, l))"
proof (induction ptrs arbitrary: acc lg)
  case Nil
  then show ?case by simp
next
  case (Cons ptr rest)
  from Cons.prems obtain oc r lg1 where
    oc: "get_objc_class_from_classlist_pointer b ptr = Some oc"
    and od: "get_objc_data_from_objc_class b oc = Some (r, lg1)"
    by (auto split: option.splits)
  show ?case
  proof (cases r)
    case None
    with Cons.prems oc od have "parse_classes_loop b srs rest acc (lg @ lg1) = Some (cls, lg')"
      by simp
    from Cons.IH [OF this] show ?thesis .
  next
    case (Some d)
    with Cons.prems oc od obtain c lg2 where
      pe: "parse_objc_data_entry b srs d = Some (c, lg2)"
      and rec: "parse_classes_loop b srs rest (acc @ [c]) (lg @ lg1 @ lg2) = Some (cls, lg')"
      by (auto split: option.splits)
    from Cons.IH [OF rec] obtain new where
      "cls = (acc @ [c]) @ new"
      "\<forall>c \<in> set new. \<exists>d l. parse_objc_data_entry b srs d = Some (c, l)"
      by blast
    with pe show ?thesis
      by (intro exI [of _ "c # new"]) auto
  qed
qed

lemma ObjcRuntimeDataParser_parts:
  assumes "ObjcRuntimeDataParser b = Some (p, lg)"
  shows "binary p = b"
    and "parse_selrefs b = Some (private_selrefs p)"
    and "\<exists>l. parse_static_objc_runtime_info b (private_selrefs p) = Some (classes p, l)"
    and "parse_linked_dylib_symbols b = Some (private_sym_to_dylib_path p)"
  using assms by (auto simp: ObjcRuntimeDataParser_def split: option.splits)

text \<open>
  Every selector of a parsed class was built from a method entry: its name is the string
  at the entry's name pointer, its selref is what the pointer map holds for the name
  pointer, and its implementation is the masked implementation field.
\<close>

lemma class_selectors_built:
  assumes init: "ObjcRuntimeDataParser b = Some (p, lg)"
    and sel: "sel \<in> set (class_selectors p)"
  shows "\<exists>(ent :: objc_method_struct) nm.
          get_full_string_from_start_address b (method_name ent) True = Some nm \<and>
          sel = ObjcSelector nm (build_selref_pointer_map (private_selrefs p) (method_name ent))
                      (Some (method_implementation ent AND NOT 3))"
proof -
  from sel obtain c where c: "c \<in> set (classes p)" and s: "sel \<in> set (selectors c)"
    by (auto simp: class_selectors_def)
  from ObjcRuntimeDataParser_parts(3) [OF init] obtain l ptrs where
    "parse_classes_loop b (private_selrefs p) ptrs [] [LogCrossReferencing] = Some (classes p, l)"
    by (auto simp: parse_static_objc_runtime_info_def split: option.splits)
  from parse_classes_loop_classes [OF this] c obtain d l' where
    "parse_objc_data_entry b (private_selrefs p) d = Some (c, l')"
    by auto
  then have "get_selectors (ObjcDataEntryParser b (private_selrefs p) d) = Some (selectors c)"
    by (rule parse_objc_data_entry_selectors)
  from get_selectors_built [OF this s] show ?thesis
    by (simp add: ObjcDataEntryParser_def)
qed

lemma class_selectors_selref:
  assumes init: "ObjcRuntimeDataParser b = Some (p, lg)"
    and sel: "sel \<in> set (class_selectors p)"
    and r: "sel_selref sel = Some r"
  shows "r \<in> set (private_selrefs p)" and "sel_name sel = selector_literal r"
proof -
  from class_selectors_built [OF init sel] obtain ent :: objc_method_struct and nm where
    nm: "get_full_string_from_start_address b (method_name ent) True = Some nm"
    and s: "sel = ObjcSelector nm (build_selref_pointer_map (private_selrefs p) (method_name ent))
                      (Some (method_implementation ent AND NOT 3))"
    by blast
  from s r have m: "build_selref_pointer_map (private_selrefs p) (method_name ent) = Some r"
    by (simp add: ObjcSelector_def)
  from build_selref_pointer_map_Some [OF m]
  have mem: "r \<in> set (private_selrefs p)" and dst: "destination_address r = method_name ent"
    by simp_all
  show "r \<in> set (private_selrefs p)" by (rule mem)
  from mem obtain i where i: "i < length (private_selrefs p)" and ri: "private_selrefs p ! i = r"
    by (auto simp: in_set_conv_nth)
  have ps: "parse_selrefs b = Some (private_selrefs p)"
    by (rule ObjcRuntimeDataParser_parts(2) [OF init])
  have "sections b ''__objc_selrefs'' \<noteq> None"
  proof
    assume "sections b ''__objc_selrefs'' = None"
    then have "parse_selrefs b = Some []" by (rule parse_selrefs_missing)
    with ps i show False by simp
  qed
  then obtain sect where "sections b ''__objc_selrefs'' = Some sect" by auto
  from parse_selrefs_entries(4) [OF this ps i] ri dst nm
  have "nm = selector_literal r" by simp
  with s show "sel_name sel = selector_literal r"
    by (simp add: ObjcSelector_def)
qed

subsection \<open>Looking a selref up\<close>

lemma find_append_cases:
  "find P (xs @ ys) = (case find P xs of None \<Rightarrow> find P ys | Some x \<Rightarrow> Some x)"
  by (induction xs) auto

lemma selector_for_selref_in_class_find:
  "selector_for_selref_in_class sels a = find (carries_selref_at a) sels"
  by (induction sels) (auto simp: carries_selref_at_def split: option.splits)

lemma selector_for_selref_in_classes_find:
  "selector_for_selref_in_classes cls a = find (carries_selref_at a) (concat (map selectors cls))"
proof (induction cls)
  case Nil
  then show ?case by simp
next
  case (Cons c cls)
  show ?case
    by (simp add: Cons.IH find_append_cases selector_for_selref_in_class_find
          split: option.splits)
qed

lemma selector_for_selref_local:
  assumes "\<exists>sel \<in> set (class_selectors p). carries_selref_at a sel"
  shows "\<exists>sel. selector_for_selref p a = Some sel \<and> sel \<in> set (class_selectors p) \<and>
           carries_selref_at a sel \<and> find (carries_selref_at a) (class_selectors p) = Some sel"
proof -
  from assms have "find (carries_selref_at a) (class_selectors p) \<noteq> None"
    by (auto simp: find_None_iff)
  then obtain sel where f: "find (carries_selref_at a) (class_selectors p) = Some sel" by auto
  then have "sel \<in> set (class_selectors p)" "carries_selref_at a sel"
    by (auto simp: find_Some_iff)
  moreover from f have "selector_for_selref p a = Some sel"
    by (simp add: selector_for_selref_def selector_for_selref_in_classes_find class_selectors_def)
  ultimately show ?thesis using f by blast
qed

lemma selector_for_selref_not_local:
  assumes "\<forall>sel \<in> set (class_selectors p). \<not> carries_selref_at a sel"
  shows "selector_for_selref p a =
     (case filter (\<lambda>x. Some (source_address x) = a) (private_selrefs p) of
        [] \<Rightarrow> None
      | s # _ \<Rightarrow> Some (ObjcSelector (selector_literal s) (Some s) None))"
proof -
  from assms have "find (carries_selref_at a) (class_selectors p) = None"
    by (simp add: find_None_iff)
  then show ?thesis
    by (simp add: selector_for_selref_def selector_for_selref_in_classes_find class_selectors_def)
qed

lemma filter_distinct_source:
  assumes d: "distinct (map source_address srs)" and s: "s \<in> set srs"
  shows "filter (\<lambda>x. Some (source_address x) = Some (source_address s)) srs = [s]"
  using d s
proof (induction srs)
  case Nil
  then show ?case by simp
next
  case (Cons x xs)
  show ?case
  proof (cases "x = s")
    case True
    with Cons.prems(1) have notin: "source_address s \<notin> set (map source_address xs)"
      by simp
    have "\<forall>y \<in> set xs. source_address y \<noteq> source_address s"
    proof
      fix y assume "y \<in> set xs"
      then have "source_address y \<in> set (map source_address xs)" by simp
      with notin show "source_address y \<noteq> source_address s" by metis
    qed
    then have "filter (\<lambda>x. source_address x = source_address s) xs = []"
      by (simp add: filter_empty_conv)
    with True show ?thesis by simp
  next
    case False
    with Cons.prems have m: "s \<in> set xs" and dx: "distinct (map source_address xs)" by auto
    from m have "source_address s \<in> set (map source_address xs)" by simp
    with Cons.prems(1) have "source_address x \<noteq> source_address s" by auto
    with Cons.IH [OF dx m] show ?thesis by simp
  qed
qed

subsection \<open>The small binary, parsed\<close>

lemma get_classlist_pointers_exact:
  assumes "sections b ''__objc_classlist'' = Some sect"
    and "length (content sect) < 2 ^ 53"
  shows "get_classlist_pointers b =
     get_classlist_pointers_loop (platform_word_type b) (content sect)
       [0..<length (content sect) div sizeof (platform_word_type b)] 0 []"
  using assms
  by (simp add: get_classlist_pointers_def Let_def py_int_true_div_exact sizeof_pos)

lemma example_get_classlist_pointers:
  "get_classlist_pointers example_binary = Some [16384, 16400]"
proof -
  have s: "sections example_binary ''__objc_classlist'' = Some example_classlist_sect"
    by (simp add: example_binary_def)
  have l: "length (content example_classlist_sect) < 2 ^ 53"
    by (simp add: example_classlist_sect_def)
  show ?thesis
    unfolding get_classlist_pointers_exact [OF s l]
    by (simp add: example_binary_def example_classlist_sect_def upt_rec py_slice_def
        from_buffer_def)
qed

lemma example_selref_pointer_map_foo:
  "build_selref_pointer_map [example_selref_foo, example_selref_bar] 12288
     = Some example_selref_foo"
  by (simp add: build_selref_pointer_map_def example_selref_foo_def example_selref_bar_def)

lemma example_selref_pointer_map_baz:
  "build_selref_pointer_map [example_selref_foo, example_selref_bar] 12304 = None"
  by (simp add: build_selref_pointer_map_def example_selref_foo_def example_selref_bar_def)

lemma example_get_selectors:
  "get_selectors (ObjcDataEntryParser example_binary [example_selref_foo, example_selref_bar]
       \<lparr>data_name = 12320, base_methods = 24576\<rparr>)
     = Some [example_sel_foo, example_sel_baz]"
  by (simp add: get_selectors_def get_methlist_def ObjcDataEntryParser_def example_binary_def
      example_file_offset_def example_methlists_def get_selectors_from_methlist_def
      py_range_def upt_rec example_methods_def example_strings_def
      get_selref_for_objc_method_def example_selref_pointer_map_foo
      example_selref_pointer_map_baz ObjcSelector_def py_not_int_def
      example_sel_foo_def example_sel_baz_def)

lemma example_parse_static:
  "parse_static_objc_runtime_info example_binary [example_selref_foo, example_selref_bar]
     = Some ([\<lparr>class_name = ''DTLabel'', selectors = [example_sel_foo, example_sel_baz]\<rparr>],
             [LogCrossReferencing, LogParsingSelectorsForClass ''DTLabel'',
              LogInvalidObjcDataRaw 20544 17])"
proof -
  have v: "get_virtual_base example_binary = 4096"
    and s: "get_full_string_from_start_address example_binary 12320 True = Some ''DTLabel''"
    and c1: "read_ObjcClassRawStruct example_binary 16384 = Some \<lparr>data = 20481\<rparr>"
    and c2: "read_ObjcClassRawStruct example_binary 16400 = Some \<lparr>data = 20544\<rparr>"
    and d1: "read_ObjcDataRawStruct example_binary 20480
               = Some \<lparr>data_name = 12320, base_methods = 24576\<rparr>"
    and d2: "read_ObjcDataRawStruct example_binary 20544
               = Some \<lparr>data_name = 17, base_methods = 0\<rparr>"
    by (simp_all add: example_binary_def example_strings_def example_classes_def
        example_datas_def)
  have m1: "(20481::int) AND NOT 3 = 20480" and m2: "(20544::int) AND NOT 3 = 20544"
    by simp_all
  show ?thesis
    by (simp add: parse_static_objc_runtime_info_def example_get_classlist_pointers
        get_objc_class_from_classlist_pointer_def get_objc_data_from_objc_class_def
        parse_objc_data_entry_def c1 c2 d1 d2 m1 m2 v s example_get_selectors ObjcClass_def)
qed

lemma example_parse_linked_dylib_symbols:
  "parse_linked_dylib_symbols example_binary
     = Some [''_objc_msgSend'' \<mapsto> ''/usr/lib/libobjc.A.dylib'']"
  by (simp add: parse_linked_dylib_symbols_def example_binary_def py_range_def py_index_def
      example_strings_def library_ordinal_from_n_desc_def dylib_from_library_ordinal_def)

lemma example_ObjcRuntimeDataParser:
  "ObjcRuntimeDataParser example_binary = Some (example_parser, example_log)"
  by (simp add: ObjcRuntimeDataParser_def example_parse_selrefs example_parse_static
      example_parse_linked_dylib_symbols example_parser_def example_log_def)

lemma example_class_selectors:
  "class_selectors example_parser = [example_sel_foo, example_sel_baz]"
  by (simp add: class_selectors_def example_parser_def)

subsection \<open>\<^verbatim>\<open>selector_for_selref\<close>\<close>

lemma selrefs_source_inj:
  assumes init: "ObjcRuntimeDataParser b = Some (p, lg)"
    and r: "r \<in> set (private_selrefs p)" and s: "s \<in> set (private_selrefs p)"
    and eq: "source_address r = source_address s"
  shows "r = s"
proof -
  have "distinct (map source_address (private_selrefs p))"
    by (rule parse_selrefs_distinct [OF ObjcRuntimeDataParser_parts(2) [OF init]])
  then have "inj_on source_address (set (private_selrefs p))"
    by (simp add: distinct_map)
  with r s eq show ?thesis by (auto dest: inj_onD)
qed

lemma selector_for_selref_external:
  assumes init: "ObjcRuntimeDataParser b = Some (p, lg)"
    and s: "s \<in> set (private_selrefs p)"
    and nl: "\<forall>sel \<in> set (class_selectors p). \<not> carries_selref_at (Some (source_address s)) sel"
  shows "selector_for_selref p (Some (source_address s))
           = Some (ObjcSelector (selector_literal s) (Some s) None)"
proof -
  have "distinct (map source_address (private_selrefs p))"
    by (rule parse_selrefs_distinct [OF ObjcRuntimeDataParser_parts(2) [OF init]])
  from filter_distinct_source [OF this s] selector_for_selref_not_local [OF nl]
  show ?thesis by simp
qed

lemma selector_for_selref_unknown:
  assumes init: "ObjcRuntimeDataParser b = Some (p, lg)"
    and un: "\<forall>s \<in> set (private_selrefs p). Some (source_address s) \<noteq> a"
  shows "selector_for_selref p a = None"
proof -
  have nl: "\<forall>sel \<in> set (class_selectors p). \<not> carries_selref_at a sel"
  proof
    fix sel assume sel: "sel \<in> set (class_selectors p)"
    show "\<not> carries_selref_at a sel"
    proof
      assume "carries_selref_at a sel"
      then obtain r where r: "sel_selref sel = Some r" and a: "Some (source_address r) = a"
        by (auto simp: carries_selref_at_def split: option.splits)
      from class_selectors_selref(1) [OF init sel r] un a show False by blast
    qed
  qed
  from un have "filter (\<lambda>x. Some (source_address x) = a) (private_selrefs p) = []"
    by (auto simp: filter_empty_conv)
  with selector_for_selref_not_local [OF nl] show ?thesis by simp
qed

text \<open>
  C1. \<^verbatim>\<open>selector_for_selref(addr)\<close> on a constructed parser, by cases.
  If some selector of a parsed class carries a selref whose source address is \<open>addr\<close>,
  the result is such a local selector (the first one in class order, then method order).
  If \<open>addr\<close> is the source address of a parsed selref \<open>s\<close> that no class selector
  carries, the result is a synthetic selector named by the literal of \<open>s\<close>, holding \<open>s\<close>,
  without implementation. If \<open>addr\<close> is the source address of no parsed selref (in
  particular if it is \<^verbatim>\<open>None\<close>), the result is absent.
\<close>

theorem selector_for_selref_cases:
  assumes init: "ObjcRuntimeDataParser b = Some (p, lg)"
  shows "((\<exists>sel \<in> set (class_selectors p). carries_selref_at a sel) \<longrightarrow>
            (\<exists>sel. selector_for_selref p a = Some sel \<and> sel \<in> set (class_selectors p) \<and>
                   carries_selref_at a sel \<and>
                   find (carries_selref_at a) (class_selectors p) = Some sel)) \<and>
         (\<forall>s \<in> set (private_selrefs p).
            Some (source_address s) = a \<and>
            (\<forall>sel \<in> set (class_selectors p). \<not> carries_selref_at a sel) \<longrightarrow>
            selector_for_selref p a =
              Some \<lparr>sel_name = selector_literal s, sel_selref = Some s,
                    sel_implementation = None, is_external_definition = True\<rparr>) \<and>
         ((\<forall>s \<in> set (private_selrefs p). Some (source_address s) \<noteq> a) \<longrightarrow>
            selector_for_selref p a = None)"
proof (intro conjI ballI impI)
  assume "\<exists>sel \<in> set (class_selectors p). carries_selref_at a sel"
  then show "\<exists>sel. selector_for_selref p a = Some sel \<and> sel \<in> set (class_selectors p) \<and>
                   carries_selref_at a sel \<and>
                   find (carries_selref_at a) (class_selectors p) = Some sel"
    by (rule selector_for_selref_local)
next
  fix s
  assume s: "s \<in> set (private_selrefs p)"
    and h: "Some (source_address s) = a \<and>
            (\<forall>sel \<in> set (class_selectors p). \<not> carries_selref_at a sel)"
  from h have "\<forall>sel \<in> set (class_selectors p).
                 \<not> carries_selref_at (Some (source_address s)) sel" by auto
  from selector_for_selref_external [OF init s this] h
  show "selector_for_selref p a =
              Some \<lparr>sel_name = selector_literal s, sel_selref = Some s,
                    sel_implementation = None, is_external_definition = True\<rparr>"
    by (auto simp: ObjcSelector_def py_not_int_def)
next
  assume "\<forall>s \<in> set (private_selrefs p). Some (source_address s) \<noteq> a"
  then show "selector_for_selref p a = None"
    by (rule selector_for_selref_unknown [OF init])
qed

theorem selector_for_selref_cases_witness:
  "ObjcRuntimeDataParser example_binary = Some (example_parser, example_log) \<and>
   selector_for_selref example_parser (Some 8192) = Some example_sel_foo \<and>
   selector_for_selref example_parser (Some 8200) =
     Some \<lparr>sel_name = ''bar:'', sel_selref = Some example_selref_bar,
           sel_implementation = None, is_external_definition = True\<rparr> \<and>
   selector_for_selref example_parser None = None"
proof -
  note init = example_ObjcRuntimeDataParser
  have srs: "private_selrefs example_parser = [example_selref_foo, example_selref_bar]"
    by (simp add: example_parser_def)
  have c_foo: "carries_selref_at (Some 8192) example_sel_foo"
    by (simp add: carries_selref_at_def example_sel_foo_def example_selref_foo_def)
  have c_baz: "\<And>a. \<not> carries_selref_at a example_sel_baz"
    by (simp add: carries_selref_at_def example_sel_baz_def)
  have n_foo: "\<not> carries_selref_at (Some 8200) example_sel_foo"
    and n_foo': "\<not> carries_selref_at None example_sel_foo"
    by (simp_all add: carries_selref_at_def example_sel_foo_def example_selref_foo_def)
  have "selector_for_selref example_parser (Some 8192) = Some example_sel_foo"
    using selector_for_selref_cases [OF init, of "Some 8192"] c_foo c_baz
    by (auto simp: example_class_selectors)
  moreover have "selector_for_selref example_parser (Some 8200) =
     Some \<lparr>sel_name = ''bar:'', sel_selref = Some example_selref_bar,
           sel_implementation = None, is_external_definition = True\<rparr>"
    using selector_for_selref_cases [OF init, of "Some 8200"] n_foo c_baz
    by (simp add: example_class_selectors srs example_selref_bar_def)
  moreover have "selector_for_selref example_parser None = None"
    using selector_for_selref_cases [OF init, of None]
    by (simp add: srs)
  ultimately show ?thesis using init by simp
qed

text \<open>
  C2. For every selref \<open>s\<close> produced by the selrefs pass, \<^verbatim>\<open>selector_for_selref\<close> at the
  source address of \<open>s\<close> is not absent, and the selector it returns is named by the literal
  of \<open>s\<close>, whether it is a selector of a parsed class or the synthetic one.
\<close>

theorem selector_for_selref_name:
  assumes init: "ObjcRuntimeDataParser b = Some (p, lg)"
    and s: "s \<in> set (private_selrefs p)"
  shows "\<exists>sel. selector_for_selref p (Some (source_address s)) = Some sel \<and>
               sel_name sel = selector_literal s"
proof (cases "\<exists>sel \<in> set (class_selectors p). carries_selref_at (Some (source_address s)) sel")
  case True
  from selector_for_selref_local [OF True] obtain sel where
    res: "selector_for_selref p (Some (source_address s)) = Some sel"
    and mem: "sel \<in> set (class_selectors p)"
    and car: "carries_selref_at (Some (source_address s)) sel"
    by blast
  from car obtain r where r: "sel_selref sel = Some r"
    and eq: "source_address r = source_address s"
    by (auto simp: carries_selref_at_def split: option.splits)
  from class_selectors_selref [OF init mem r]
  have rm: "r \<in> set (private_selrefs p)" and nm: "sel_name sel = selector_literal r"
    by simp_all
  from selrefs_source_inj [OF init rm s eq] nm res show ?thesis by simp
next
  case False
  then have "\<forall>sel \<in> set (class_selectors p).
               \<not> carries_selref_at (Some (source_address s)) sel" by simp
  from selector_for_selref_external [OF init s this] show ?thesis
    by (simp add: ObjcSelector_def)
qed

theorem selector_for_selref_name_witness:
  "ObjcRuntimeDataParser example_binary = Some (example_parser, example_log) \<and>
   example_selref_foo \<in> set (private_selrefs example_parser) \<and>
   (\<exists>sel. selector_for_selref example_parser (Some (source_address example_selref_foo)) = Some sel \<and>
          sel_name sel = selector_literal example_selref_foo)"
proof -
  have m: "example_selref_foo \<in> set (private_selrefs example_parser)"
    by (simp add: example_parser_def)
  from selector_for_selref_name [OF example_ObjcRuntimeDataParser m]
    example_ObjcRuntimeDataParser m
  show ?thesis by blast
qed

subsection \<open>Selectors of parsed classes\<close>

lemma example_get_selectors_from_methlist:
  "get_selectors_from_methlist
     (ObjcDataEntryParser example_binary [example_selref_foo, example_selref_bar]
        \<lparr>data_name = 12320, base_methods = 24576\<rparr>)
     \<lparr>methcount = 2, methlist_sizeof = 8\<rparr> 20480
     = Some [example_sel_foo, example_sel_baz]"
  by (simp add: ObjcDataEntryParser_def example_binary_def get_selectors_from_methlist_def
      py_range_def upt_rec example_methods_def example_strings_def
      get_selref_for_objc_method_def example_selref_pointer_map_foo
      example_selref_pointer_map_baz ObjcSelector_def py_not_int_def
      example_sel_foo_def example_sel_baz_def)

lemma example_get_methlist:
  "get_methlist
     (ObjcDataEntryParser example_binary [example_selref_foo, example_selref_bar]
        \<lparr>data_name = 12320, base_methods = 24576\<rparr>)
     = Some (Some (\<lparr>methcount = 2, methlist_sizeof = 8\<rparr>, 20480))"
  by (simp add: get_methlist_def ObjcDataEntryParser_def example_binary_def
      example_file_offset_def example_methlists_def)

lemma example_method_entries:
  "nth_method_entry_off example_binary 20488 0 = Some 20488"
  "nth_method_entry_off example_binary 20488 (Suc 0) = Some 20512"
  "read_ObjcMethodStruct example_binary 20488
     = Some \<lparr>method_name = 12288, method_implementation = 28673, method_sizeof = 24\<rparr>"
  "read_ObjcMethodStruct example_binary 20512
     = Some \<lparr>method_name = 12304, method_implementation = 2, method_sizeof = 24\<rparr>"
  by (simp_all add: example_binary_def example_methods_def)

text \<open>
  C4. In the list that \<^verbatim>\<open>_get_selectors_from_methlist\<close> returns, the implementation of the
  \<open>i\<close>-th selector is the implementation field of the \<open>i\<close>-th method entry with its low two
  bits cleared; and every selector of a class of a constructed parser has an implementation
  address whose low two bits are zero.
\<close>

theorem implementation_masked:
  "(\<forall>sels. get_selectors_from_methlist self methlist ptr = Some sels \<longrightarrow>
      (\<forall>i < length sels. \<exists>pos ent.
         nth_method_entry_off (dep_binary self) (ptr + methlist_sizeof methlist) i = Some pos \<and>
         read_ObjcMethodStruct (dep_binary self) pos = Some ent \<and>
         sel_implementation (sels ! i) = Some (method_implementation ent AND NOT 3))) \<and>
   (\<forall>p lg. ObjcRuntimeDataParser b = Some (p, lg) \<longrightarrow>
      (\<forall>sel \<in> set (class_selectors p).
         \<exists>v. sel_implementation sel = Some v \<and> v AND 3 = 0))"
proof (intro conjI allI impI ballI)
  fix sels i
  assume ok: "get_selectors_from_methlist self methlist ptr = Some sels"
    and i: "i < length sels"
  from get_selectors_from_methlist_entries(2) [OF ok i] obtain pos ent nm where
    "nth_method_entry_off (dep_binary self) (ptr + methlist_sizeof methlist) i = Some pos"
    "read_ObjcMethodStruct (dep_binary self) pos = Some ent"
    "sels ! i = ObjcSelector nm (dep_selref_pointer_map self (method_name ent))
                  (Some (method_implementation ent AND NOT 3))"
    by blast
  then show "\<exists>pos ent.
         nth_method_entry_off (dep_binary self) (ptr + methlist_sizeof methlist) i = Some pos \<and>
         read_ObjcMethodStruct (dep_binary self) pos = Some ent \<and>
         sel_implementation (sels ! i) = Some (method_implementation ent AND NOT 3)"
    by (simp add: ObjcSelector_def)
next
  fix p lg sel
  assume init: "ObjcRuntimeDataParser b = Some (p, lg)"
    and sel: "sel \<in> set (class_selectors p)"
  from class_selectors_built [OF init sel] obtain ent :: objc_method_struct and nm where
    "sel = ObjcSelector nm (build_selref_pointer_map (private_selrefs p) (method_name ent))
                      (Some (method_implementation ent AND NOT 3))"
    by blast
  then have "sel_implementation sel = Some (method_implementation ent AND NOT 3)"
    by (simp add: ObjcSelector_def)
  with mask_low_bits [of "method_implementation ent"]
  show "\<exists>v. sel_implementation sel = Some v \<and> v AND 3 = 0" by blast
qed

theorem implementation_masked_witness:
  "get_selectors_from_methlist
     (ObjcDataEntryParser example_binary [example_selref_foo, example_selref_bar]
        \<lparr>data_name = 12320, base_methods = 24576\<rparr>)
     \<lparr>methcount = 2, methlist_sizeof = 8\<rparr> 20480
     = Some [example_sel_foo, example_sel_baz] \<and>
   sel_implementation example_sel_foo = Some (28673 AND NOT 3) \<and>
   sel_implementation example_sel_baz = Some (2 AND NOT 3) \<and>
   ObjcRuntimeDataParser example_binary = Some (example_parser, example_log) \<and>
   (\<exists>v. sel_implementation example_sel_foo = Some v \<and> v AND 3 = 0)"
proof -
  let ?self = "ObjcDataEntryParser example_binary [example_selref_foo, example_selref_bar]
        \<lparr>data_name = 12320, base_methods = 24576\<rparr>"
  let ?ml = "\<lparr>methcount = 2, methlist_sizeof = 8\<rparr>"
  have b: "dep_binary ?self = example_binary" by (simp add: ObjcDataEntryParser_def)
  note t = implementation_masked [of ?self ?ml 20480 example_binary]
  from t example_get_selectors_from_methlist
  have all: "\<forall>i < 2. \<exists>pos ent.
         nth_method_entry_off example_binary 20488 i = Some pos \<and>
         read_ObjcMethodStruct example_binary pos = Some ent \<and>
         sel_implementation ([example_sel_foo, example_sel_baz] ! i)
           = Some (method_implementation ent AND NOT 3)"
    by (simp add: b)
  from all [rule_format, of 0] have "sel_implementation example_sel_foo = Some (28673 AND NOT 3)"
    by (simp add: example_method_entries)
  moreover from all [rule_format, of 1]
  have "sel_implementation example_sel_baz = Some (2 AND NOT 3)"
    by (simp add: example_method_entries)
  moreover from t example_ObjcRuntimeDataParser
  have "\<forall>sel \<in> set (class_selectors example_parser).
      \<exists>v. sel_implementation sel = Some v \<and> v AND 3 = 0"
    by blast
  then have "\<exists>v. sel_implementation example_sel_foo = Some v \<and> v AND 3 = 0"
    by (simp add: example_class_selectors)
  ultimately show ?thesis
    using example_get_selectors_from_methlist example_ObjcRuntimeDataParser by blast
qed

lemma example_parse_objc_data_entry:
  "parse_objc_data_entry example_binary [example_selref_foo, example_selref_bar]
       \<lparr>data_name = 12320, base_methods = 24576\<rparr>
     = Some (\<lparr>class_name = ''DTLabel'', selectors = [example_sel_foo, example_sel_baz]\<rparr>,
             [LogParsingSelectorsForClass ''DTLabel''])"
proof -
  have s: "get_full_string_from_start_address example_binary 12320 True = Some ''DTLabel''"
    by (simp add: example_binary_def example_strings_def)
  show ?thesis
    by (simp add: parse_objc_data_entry_def s example_get_selectors ObjcClass_def)
qed

lemma parsed_class_from_data_entry:
  assumes init: "ObjcRuntimeDataParser b = Some (p, lg)" and c: "c \<in> set (classes p)"
  shows "\<exists>d l. parse_objc_data_entry b (private_selrefs p) d = Some (c, l) \<and>
           (base_methods d = 0 \<and> selectors c = [] \<or>
            (\<exists>ml mp.
               get_methlist (ObjcDataEntryParser b (private_selrefs p) d) = Some (Some (ml, mp)) \<and>
               get_selectors_from_methlist (ObjcDataEntryParser b (private_selrefs p) d) ml mp
                 = Some (selectors c)))"
proof -
  from ObjcRuntimeDataParser_parts(3) [OF init] obtain l0 where
    "parse_static_objc_runtime_info b (private_selrefs p) = Some (classes p, l0)" by blast
  then obtain ptrs where
    "parse_classes_loop b (private_selrefs p) ptrs [] [LogCrossReferencing] = Some (classes p, l0)"
    by (auto simp: parse_static_objc_runtime_info_def split: option.splits)
  from parse_classes_loop_classes [OF this] c obtain d l where
    pe: "parse_objc_data_entry b (private_selrefs p) d = Some (c, l)" by auto
  let ?self = "ObjcDataEntryParser b (private_selrefs p) d"
  have raw: "dep_objc_data_raw_struct ?self = d" by (simp add: ObjcDataEntryParser_def)
  from get_selectors_cases [OF parse_objc_data_entry_selectors [OF pe]]
  have "base_methods d = 0 \<and> selectors c = [] \<or>
            (\<exists>ml mp. get_methlist ?self = Some (Some (ml, mp)) \<and>
               get_selectors_from_methlist ?self ml mp = Some (selectors c))"
    unfolding raw by blast
  with pe show ?thesis by blast
qed

text \<open>
  C5. For each method entry of the list that \<^verbatim>\<open>_get_selectors_from_methlist\<close> walks, with
  the pointer map built from the parsed selrefs: a selector is produced for the entry (the
  list has \<^verbatim>\<open>methcount\<close> selectors) and carries the masked implementation address; when
  the entry's name pointer is the destination of a parsed selref, the selector carries a
  parsed selref with that destination, namely the last one in parse order; when no parsed
  selref has that destination, the selector has no selref. When the list walked is the
  method list of a data entry, the list of selectors produced is what \<^verbatim>\<open>get_selectors\<close>
  returns for the entry and is the selector list of the class parsed from it. Every class
  of a constructed parser is parsed from a data entry in this way, with the selrefs of the
  parser: its selector list is empty when \<^verbatim>\<open>base_methods\<close> is 0 and is otherwise the
  list produced by walking the entry's method list.
\<close>

theorem selref_attached_to_method:
  assumes ok: "get_selectors_from_methlist (ObjcDataEntryParser b srs raw) methlist ptr = Some sels"
  shows "length sels = nat (methcount methlist) \<and>
     (\<forall>i < length sels. \<exists>pos ent.
        nth_method_entry_off b (ptr + methlist_sizeof methlist) i = Some pos \<and>
        read_ObjcMethodStruct b pos = Some ent \<and>
        sel_implementation (sels ! i) = Some (method_implementation ent AND NOT 3) \<and>
        ((\<exists>s \<in> set srs. destination_address s = method_name ent) \<longrightarrow>
           (\<exists>s \<in> set srs. destination_address s = method_name ent \<and>
                            sel_selref (sels ! i) = Some s)) \<and>
        (\<forall>xs s ys. srs = xs @ s # ys \<and> destination_address s = method_name ent \<and>
             (\<forall>y \<in> set ys. destination_address y \<noteq> method_name ent) \<longrightarrow>
           sel_selref (sels ! i) = Some s) \<and>
        ((\<forall>s \<in> set srs. destination_address s \<noteq> method_name ent) \<longrightarrow>
           sel_selref (sels ! i) = None)) \<and>
     (get_methlist (ObjcDataEntryParser b srs raw) = Some (Some (methlist, ptr)) \<longrightarrow>
        get_selectors (ObjcDataEntryParser b srs raw) = Some sels \<and>
        (\<forall>c l. parse_objc_data_entry b srs raw = Some (c, l) \<longrightarrow> selectors c = sels)) \<and>
     (\<forall>p lg c. ObjcRuntimeDataParser b = Some (p, lg) \<and> c \<in> set (classes p) \<longrightarrow>
        (\<exists>d l. parse_objc_data_entry b (private_selrefs p) d = Some (c, l) \<and>
           (base_methods d = 0 \<and> selectors c = [] \<or>
            (\<exists>ml mp.
               get_methlist (ObjcDataEntryParser b (private_selrefs p) d) = Some (Some (ml, mp)) \<and>
               get_selectors_from_methlist (ObjcDataEntryParser b (private_selrefs p) d) ml mp
                 = Some (selectors c)))))"
proof -
  let ?self = "ObjcDataEntryParser b srs raw"
  have len: "length sels = nat (methcount methlist)"
    by (rule get_selectors_from_methlist_entries(1) [OF ok])
  have ents: "\<forall>i < length sels. \<exists>pos ent.
        nth_method_entry_off b (ptr + methlist_sizeof methlist) i = Some pos \<and>
        read_ObjcMethodStruct b pos = Some ent \<and>
        sel_implementation (sels ! i) = Some (method_implementation ent AND NOT 3) \<and>
        ((\<exists>s \<in> set srs. destination_address s = method_name ent) \<longrightarrow>
           (\<exists>s \<in> set srs. destination_address s = method_name ent \<and>
                            sel_selref (sels ! i) = Some s)) \<and>
        (\<forall>xs s ys. srs = xs @ s # ys \<and> destination_address s = method_name ent \<and>
             (\<forall>y \<in> set ys. destination_address y \<noteq> method_name ent) \<longrightarrow>
           sel_selref (sels ! i) = Some s) \<and>
        ((\<forall>s \<in> set srs. destination_address s \<noteq> method_name ent) \<longrightarrow>
           sel_selref (sels ! i) = None)"
  proof (intro allI impI)
    fix i assume i: "i < length sels"
    have bin: "dep_binary ?self = b"
      and pm: "dep_selref_pointer_map ?self = build_selref_pointer_map srs"
      by (simp_all add: ObjcDataEntryParser_def)
    from get_selectors_from_methlist_entries(2) [OF ok i] obtain pos ent nm where
      pos: "nth_method_entry_off b (ptr + methlist_sizeof methlist) i = Some pos"
      and rd: "read_ObjcMethodStruct b pos = Some ent"
      and si: "sels ! i = ObjcSelector nm (build_selref_pointer_map srs (method_name ent))
                    (Some (method_implementation ent AND NOT 3))"
      unfolding bin pm by blast
    from si have imp: "sel_implementation (sels ! i) = Some (method_implementation ent AND NOT 3)"
      and sr: "sel_selref (sels ! i) = build_selref_pointer_map srs (method_name ent)"
      by (simp_all add: ObjcSelector_def)
    have some: "(\<exists>s \<in> set srs. destination_address s = method_name ent) \<longrightarrow>
             (\<exists>s \<in> set srs. destination_address s = method_name ent \<and>
                              sel_selref (sels ! i) = Some s)"
    proof
      assume "\<exists>s \<in> set srs. destination_address s = method_name ent"
      then have "build_selref_pointer_map srs (method_name ent) \<noteq> None"
        by (simp add: build_selref_pointer_map_None)
      then obtain s where s: "build_selref_pointer_map srs (method_name ent) = Some s" by auto
      from build_selref_pointer_map_Some [OF s] s sr
      show "\<exists>s \<in> set srs. destination_address s = method_name ent \<and>
                              sel_selref (sels ! i) = Some s" by auto
    qed
    have last: "\<forall>xs s ys. srs = xs @ s # ys \<and> destination_address s = method_name ent \<and>
               (\<forall>y \<in> set ys. destination_address y \<noteq> method_name ent) \<longrightarrow>
             sel_selref (sels ! i) = Some s"
    proof (intro allI impI)
      fix xs s ys
      assume h: "srs = xs @ s # ys \<and> destination_address s = method_name ent \<and>
               (\<forall>y \<in> set ys. destination_address y \<noteq> method_name ent)"
      then have "\<forall>y \<in> set ys. destination_address y \<noteq> destination_address s" by simp
      from build_selref_pointer_map_last [OF this, of xs] h sr
      show "sel_selref (sels ! i) = Some s" by simp
    qed
    have none: "(\<forall>s \<in> set srs. destination_address s \<noteq> method_name ent) \<longrightarrow>
             sel_selref (sels ! i) = None"
      using sr by (simp add: build_selref_pointer_map_None)
    from pos rd imp some last none
    show "\<exists>pos ent.
          nth_method_entry_off b (ptr + methlist_sizeof methlist) i = Some pos \<and>
          read_ObjcMethodStruct b pos = Some ent \<and>
          sel_implementation (sels ! i) = Some (method_implementation ent AND NOT 3) \<and>
          ((\<exists>s \<in> set srs. destination_address s = method_name ent) \<longrightarrow>
             (\<exists>s \<in> set srs. destination_address s = method_name ent \<and>
                              sel_selref (sels ! i) = Some s)) \<and>
          (\<forall>xs s ys. srs = xs @ s # ys \<and> destination_address s = method_name ent \<and>
               (\<forall>y \<in> set ys. destination_address y \<noteq> method_name ent) \<longrightarrow>
             sel_selref (sels ! i) = Some s) \<and>
          ((\<forall>s \<in> set srs. destination_address s \<noteq> method_name ent) \<longrightarrow>
             sel_selref (sels ! i) = None)"
      by blast
  qed
  have cls: "get_methlist ?self = Some (Some (methlist, ptr)) \<longrightarrow>
        get_selectors ?self = Some sels \<and>
        (\<forall>c l. parse_objc_data_entry b srs raw = Some (c, l) \<longrightarrow> selectors c = sels)"
  proof (intro impI conjI allI)
    assume ml: "get_methlist ?self = Some (Some (methlist, ptr))"
    with ok show gs: "get_selectors ?self = Some sels" by (simp add: get_selectors_def)
    fix c l assume "parse_objc_data_entry b srs raw = Some (c, l)"
    from parse_objc_data_entry_selectors [OF this] gs show "selectors c = sels" by simp
  qed
  have all: "\<forall>p lg c. ObjcRuntimeDataParser b = Some (p, lg) \<and> c \<in> set (classes p) \<longrightarrow>
        (\<exists>d l. parse_objc_data_entry b (private_selrefs p) d = Some (c, l) \<and>
           (base_methods d = 0 \<and> selectors c = [] \<or>
            (\<exists>ml mp.
               get_methlist (ObjcDataEntryParser b (private_selrefs p) d) = Some (Some (ml, mp)) \<and>
               get_selectors_from_methlist (ObjcDataEntryParser b (private_selrefs p) d) ml mp
                 = Some (selectors c))))"
    using parsed_class_from_data_entry by blast
  show ?thesis by (rule conjI [OF len conjI [OF ents conjI [OF cls all]]])
qed

theorem selref_attached_to_method_witness:
  "get_selectors_from_methlist
     (ObjcDataEntryParser example_binary [example_selref_foo, example_selref_bar]
        \<lparr>data_name = 12320, base_methods = 24576\<rparr>)
     \<lparr>methcount = 2, methlist_sizeof = 8\<rparr> 20480
     = Some [example_sel_foo, example_sel_baz] \<and>
   length [example_sel_foo, example_sel_baz] = nat 2 \<and>
   sel_selref example_sel_foo = Some example_selref_foo \<and>
   sel_selref example_sel_baz = None \<and>
   sel_implementation example_sel_baz = Some (2 AND NOT 3) \<and>
   get_methlist
     (ObjcDataEntryParser example_binary [example_selref_foo, example_selref_bar]
        \<lparr>data_name = 12320, base_methods = 24576\<rparr>)
     = Some (Some (\<lparr>methcount = 2, methlist_sizeof = 8\<rparr>, 20480)) \<and>
   get_selectors
     (ObjcDataEntryParser example_binary [example_selref_foo, example_selref_bar]
        \<lparr>data_name = 12320, base_methods = 24576\<rparr>)
     = Some [example_sel_foo, example_sel_baz] \<and>
   parse_objc_data_entry example_binary [example_selref_foo, example_selref_bar]
       \<lparr>data_name = 12320, base_methods = 24576\<rparr>
     = Some (\<lparr>class_name = ''DTLabel'', selectors = [example_sel_foo, example_sel_baz]\<rparr>,
             [LogParsingSelectorsForClass ''DTLabel'']) \<and>
   selectors \<lparr>class_name = ''DTLabel'', selectors = [example_sel_foo, example_sel_baz]\<rparr>
     = [example_sel_foo, example_sel_baz] \<and>
   ObjcRuntimeDataParser example_binary = Some (example_parser, example_log) \<and>
   (\<exists>d l. parse_objc_data_entry example_binary (private_selrefs example_parser) d
             = Some (\<lparr>class_name = ''DTLabel'',
                      selectors = [example_sel_foo, example_sel_baz]\<rparr>, l))"
proof -
  let ?srs = "[example_selref_foo, example_selref_bar]"
  let ?sels = "[example_sel_foo, example_sel_baz]"
  let ?ml = "\<lparr>methcount = 2, methlist_sizeof = 8\<rparr>"
  let ?cls = "\<lparr>class_name = ''DTLabel'', selectors = [example_sel_foo, example_sel_baz]\<rparr>"
  note t = selref_attached_to_method [OF example_get_selectors_from_methlist]
  have d: "destination_address example_selref_foo = 12288"
    "destination_address example_selref_bar = 12296"
    by (simp_all add: example_selref_foo_def example_selref_bar_def)
  have off: "20480 + methlist_sizeof ?ml = 20488" by simp
  have len: "length ?sels = nat 2" by simp
  have i0: "0 < length ?sels" and i1: "1 < length ?sels" by simp_all
  from t [THEN conjunct2, THEN conjunct1, rule_format, OF i0] obtain pos0 ent0 where
    p0: "nth_method_entry_off example_binary (20480 + methlist_sizeof ?ml) 0 = Some pos0"
    and e0: "read_ObjcMethodStruct example_binary pos0 = Some ent0"
    and l0: "\<forall>xs s ys. ?srs = xs @ s # ys \<and> destination_address s = method_name ent0 \<and>
             (\<forall>y \<in> set ys. destination_address y \<noteq> method_name ent0) \<longrightarrow>
           sel_selref (?sels ! 0) = Some s"
    by blast
  from p0 have "pos0 = 20488" unfolding off by (simp add: example_method_entries)
  with e0 have n0: "method_name ent0 = 12288"
    by (auto simp: example_method_entries(3))
  have "?srs = [] @ example_selref_foo # [example_selref_bar] \<and>
        destination_address example_selref_foo = method_name ent0 \<and>
        (\<forall>y \<in> set [example_selref_bar]. destination_address y \<noteq> method_name ent0)"
    by (simp add: d n0)
  from l0 [rule_format, OF this]
  have foo: "sel_selref example_sel_foo = Some example_selref_foo" by simp
  from t [THEN conjunct2, THEN conjunct1, rule_format, OF i1] obtain pos1 ent1 where
    p1: "nth_method_entry_off example_binary (20480 + methlist_sizeof ?ml) 1 = Some pos1"
    and e1: "read_ObjcMethodStruct example_binary pos1 = Some ent1"
    and m1: "sel_implementation (?sels ! 1) = Some (method_implementation ent1 AND NOT 3)"
    and l1: "(\<forall>s \<in> set ?srs. destination_address s \<noteq> method_name ent1) \<longrightarrow>
           sel_selref (?sels ! 1) = None"
    by blast
  from p1 have "pos1 = 20512" unfolding off by (simp add: example_method_entries)
  with e1 have n1: "method_name ent1 = 12304" "method_implementation ent1 = 2"
    by (auto simp: example_method_entries(4))
  have "\<forall>s \<in> set ?srs. destination_address s \<noteq> method_name ent1"
    by (simp add: d n1)
  with l1 have baz: "sel_selref example_sel_baz = None" by simp
  from m1 have imp: "sel_implementation example_sel_baz = Some (2 AND NOT 3)"
    by (simp add: n1)
  from t [THEN conjunct2, THEN conjunct2, THEN conjunct1, rule_format, OF example_get_methlist]
  have gs: "get_selectors (ObjcDataEntryParser example_binary ?srs
                \<lparr>data_name = 12320, base_methods = 24576\<rparr>) = Some ?sels"
    and pc: "\<forall>c l. parse_objc_data_entry example_binary ?srs
                \<lparr>data_name = 12320, base_methods = 24576\<rparr> = Some (c, l)
              \<longrightarrow> selectors c = ?sels"
    by blast+
  from pc [rule_format, OF example_parse_objc_data_entry]
  have sc: "selectors ?cls = ?sels" .
  have mem: "?cls \<in> set (classes example_parser)"
    by (simp add: example_parser_def)
  from t [THEN conjunct2, THEN conjunct2, THEN conjunct2, rule_format,
      OF conjI [OF example_ObjcRuntimeDataParser mem]]
  have ex: "\<exists>d l. parse_objc_data_entry example_binary (private_selrefs example_parser) d
             = Some (?cls, l)"
    by blast
  from len foo baz imp gs sc ex example_get_selectors_from_methlist example_get_methlist
    example_parse_objc_data_entry example_ObjcRuntimeDataParser
  show ?thesis by blast
qed



subsection \<open>External definitions\<close>

lemma selector_for_selref_result:
  assumes "selector_for_selref p a = Some sel"
  shows "sel \<in> set (class_selectors p) \<or>
         (\<exists>s. sel = ObjcSelector (selector_literal s) (Some s) None)"
proof (cases "find (carries_selref_at a) (class_selectors p)")
  case None
  with assms show ?thesis
    by (auto simp: selector_for_selref_def selector_for_selref_in_classes_find
        class_selectors_def split: list.splits)
next
  case (Some x)
  then have "x \<in> set (class_selectors p)"
    by (auto simp: find_Some_iff)
  moreover from Some assms have "sel = x"
    by (simp add: selector_for_selref_def selector_for_selref_in_classes_find
        class_selectors_def)
  ultimately show ?thesis by simp
qed

text \<open>
  C7, as amended. On a constructed parser, \<^verbatim>\<open>is_external_definition\<close> is true exactly
  when the implementation is absent or is 0. A selector of a parsed class always has an
  implementation, the masked field of its method entry, and is flagged external exactly
  when that value is 0; a selector returned by \<^verbatim>\<open>selector_for_selref\<close> is flagged
  external exactly when its implementation is absent or 0.
\<close>

theorem is_external_definition_truthiness:
  assumes init: "ObjcRuntimeDataParser b = Some (p, lg)"
  shows "(\<forall>sel \<in> set (class_selectors p).
            \<exists>v. sel_implementation sel = Some v \<and> is_external_definition sel = (v = 0)) \<and>
         (\<forall>a sel. selector_for_selref p a = Some sel \<longrightarrow>
            is_external_definition sel =
              (sel_implementation sel = None \<or> sel_implementation sel = Some 0))"
proof -
  have cls: "\<exists>v. sel_implementation sel = Some v \<and> is_external_definition sel = (v = 0)"
    if "sel \<in> set (class_selectors p)" for sel
  proof -
    from class_selectors_built [OF init that] obtain ent :: objc_method_struct and nm where
      "sel = ObjcSelector nm (build_selref_pointer_map (private_selrefs p) (method_name ent))
                      (Some (method_implementation ent AND NOT 3))"
      by blast
    then show ?thesis by (simp add: ObjcSelector_def py_not_int_def)
  qed
  have res: "is_external_definition sel =
              (sel_implementation sel = None \<or> sel_implementation sel = Some 0)"
    if "selector_for_selref p a = Some sel" for a sel
  proof -
    from selector_for_selref_result [OF that] show ?thesis
    proof
      assume "sel \<in> set (class_selectors p)"
      from cls [OF this] show ?thesis by auto
    next
      assume "\<exists>s. sel = ObjcSelector (selector_literal s) (Some s) None"
      then show ?thesis by (auto simp: ObjcSelector_def py_not_int_def)
    qed
  qed
  from cls res show ?thesis by blast
qed

theorem is_external_definition_truthiness_witness:
  "ObjcRuntimeDataParser example_binary = Some (example_parser, example_log) \<and>
   (\<exists>v. sel_implementation example_sel_baz = Some v \<and>
        is_external_definition example_sel_baz = (v = 0)) \<and>
   selector_for_selref example_parser (Some 8192) = Some example_sel_foo \<and>
   is_external_definition example_sel_foo =
     (sel_implementation example_sel_foo = None \<or> sel_implementation example_sel_foo = Some 0)"
proof -
  note t = is_external_definition_truthiness [OF example_ObjcRuntimeDataParser]
  have foo: "selector_for_selref example_parser (Some 8192) = Some example_sel_foo"
    by (simp add: selector_for_selref_def example_parser_def carries_selref_at_def
        example_sel_foo_def example_selref_foo_def)
  from t have "\<exists>v. sel_implementation example_sel_baz = Some v \<and>
        is_external_definition example_sel_baz = (v = 0)"
    by (simp add: example_class_selectors)
  moreover from t foo have "is_external_definition example_sel_foo =
     (sel_implementation example_sel_foo = None \<or> sel_implementation example_sel_foo = Some 0)"
    by blast
  ultimately show ?thesis using foo example_ObjcRuntimeDataParser by blast
qed

text \<open>
  C7 as stated fails: the second method of \<^verbatim>\<open>DTLabel\<close> in the small binary has the raw
  implementation field 2, so its selector has the implementation 0, which is not absent,
  and is flagged external.
\<close>

theorem is_external_definition_counterexample:
  "ObjcRuntimeDataParser example_binary = Some (example_parser, example_log) \<and>
   class_selectors example_parser ! 1 = example_sel_baz \<and>
   sel_implementation example_sel_baz = Some 0 \<and>
   \<not> (is_external_definition example_sel_baz = (sel_implementation example_sel_baz = None))"
  by (simp add: example_ObjcRuntimeDataParser example_class_selectors example_sel_baz_def)

subsection \<open>Missing sections\<close>









subsection \<open>The loop over the classlist pointers\<close>






subsection \<open>A class whose data entry is invalid\<close>





subsection \<open>Library ordinals\<close>

lemma library_ordinal_range:
  "0 \<le> library_ordinal_from_n_desc n \<and> library_ordinal_from_n_desc n \<le> 255"
  by (simp add: library_ordinal_from_n_desc_def AND_upper2')

lemma dylib_from_library_ordinal_in_range:
  "1 \<le> k \<Longrightarrow> k \<le> int (length (load_dylib_commands b)) \<Longrightarrow>
     dylib_from_library_ordinal b k = Some (load_dylib_commands b ! (nat k - 1))"
  by (simp add: dylib_from_library_ordinal_def py_index_def Let_def nat_diff_distrib)

lemma dylib_from_library_ordinal_zero:
  "load_dylib_commands b \<noteq> [] \<Longrightarrow>
     dylib_from_library_ordinal b 0 = Some (last (load_dylib_commands b))"
  by (cases "load_dylib_commands b" rule: rev_cases)
     (simp_all add: dylib_from_library_ordinal_def py_index_def Let_def)

lemma dylib_from_library_ordinal_beyond:
  "int (length (load_dylib_commands b)) < k \<Longrightarrow> dylib_from_library_ordinal b k = None"
  by (simp add: dylib_from_library_ordinal_def py_index_def Let_def)

text \<open>
  C9. The ordinal is \<^verbatim>\<open>(n_desc >> 8) & 0xff\<close> and the dylib is
  \<^verbatim>\<open>load_dylib_commands[ordinal - 1]\<close>, which is the ordinal-th entry for an ordinal from 1
  to the number of dylibs. For the ordinal 0 the index is \<open>-1\<close>, which Python counts from
  the end: in the image whose undefined symbol \<^verbatim>\<open>_objc_msgSend\<close> has \<^verbatim>\<open>n_desc = 0\<close>
  the symbol is mapped to the last of the two linked dylibs, and
  \<^verbatim>\<open>path_for_external_symbol\<close> returns that path.
\<close>

theorem library_ordinal_zero_takes_last_dylib:
  "py_index (symtab_contents flat_namespace_binary)
       (dysymtab_iundefsym flat_namespace_binary + 0) = Some \<lparr>n_strx = 1, n_desc = 0\<rparr> \<and>
   library_ordinal_from_n_desc 0 = 0 \<and>
   load_dylib_commands flat_namespace_binary
     = [\<lparr>fileoff = 512, dylib_name_offset = 24\<rparr>, \<lparr>fileoff = 576, dylib_name_offset = 24\<rparr>] \<and>
   dylib_from_library_ordinal flat_namespace_binary 0
     = Some \<lparr>fileoff = 576, dylib_name_offset = 24\<rparr> \<and>
   parse_linked_dylib_symbols flat_namespace_binary
     = Some [''_objc_msgSend'' \<mapsto> ''/usr/lib/libSystem.B.dylib''] \<and>
   ObjcRuntimeDataParser flat_namespace_binary = Some (flat_namespace_parser, example_log) \<and>
   path_for_external_symbol flat_namespace_parser ''_objc_msgSend''
     = Some ''/usr/lib/libSystem.B.dylib''"
proof -
  let ?srs = "[example_selref_foo, example_selref_bar]"
  have sym: "py_index (symtab_contents flat_namespace_binary)
       (dysymtab_iundefsym flat_namespace_binary + 0) = Some \<lparr>n_strx = 1, n_desc = 0\<rparr>"
    and ord: "library_ordinal_from_n_desc 0 = 0"
    and dl: "load_dylib_commands flat_namespace_binary
     = [\<lparr>fileoff = 512, dylib_name_offset = 24\<rparr>, \<lparr>fileoff = 576, dylib_name_offset = 24\<rparr>]"
    and dy: "dylib_from_library_ordinal flat_namespace_binary 0
     = Some \<lparr>fileoff = 576, dylib_name_offset = 24\<rparr>"
    by (simp_all add: flat_namespace_binary_def example_binary_def py_index_def
        library_ordinal_from_n_desc_def dylib_from_library_ordinal_def)
  have pl: "parse_linked_dylib_symbols flat_namespace_binary
     = Some [''_objc_msgSend'' \<mapsto> ''/usr/lib/libSystem.B.dylib'']"
    by (simp add: parse_linked_dylib_symbols_def flat_namespace_binary_def example_binary_def
        py_range_def py_index_def example_strings_def library_ordinal_from_n_desc_def
        dylib_from_library_ordinal_def)
  have sr: "parse_selrefs flat_namespace_binary = Some ?srs"
    by (simp add: parse_selrefs_def flat_namespace_binary_def example_binary_def
        example_selref_sect_def example_content_def from_buffer_def example_strings_def
        ObjcSelref_def example_selref_foo_def example_selref_bar_def upt_rec
        py_int_true_div_small)
  have s: "sections flat_namespace_binary ''__objc_classlist'' = Some example_classlist_sect"
    by (simp add: flat_namespace_binary_def example_binary_def)
  have l: "length (content example_classlist_sect) < 2 ^ 53"
    by (simp add: example_classlist_sect_def)
  have ptrs: "get_classlist_pointers flat_namespace_binary = Some [16384, 16400]"
    unfolding get_classlist_pointers_exact [OF s l]
    by (simp add: flat_namespace_binary_def example_binary_def example_classlist_sect_def
        upt_rec py_slice_def from_buffer_def)
  have gs: "get_selectors (ObjcDataEntryParser flat_namespace_binary ?srs
       \<lparr>data_name = 12320, base_methods = 24576\<rparr>)
     = Some [example_sel_foo, example_sel_baz]"
    by (simp add: get_selectors_def get_methlist_def ObjcDataEntryParser_def
        flat_namespace_binary_def example_binary_def
        example_file_offset_def example_methlists_def get_selectors_from_methlist_def
        py_range_def upt_rec example_methods_def example_strings_def
        get_selref_for_objc_method_def example_selref_pointer_map_foo
        example_selref_pointer_map_baz ObjcSelector_def py_not_int_def
        example_sel_foo_def example_sel_baz_def)
  have v: "get_virtual_base flat_namespace_binary = 4096"
    and st: "get_full_string_from_start_address flat_namespace_binary 12320 True = Some ''DTLabel''"
    and c1: "read_ObjcClassRawStruct flat_namespace_binary 16384 = Some \<lparr>data = 20481\<rparr>"
    and c2: "read_ObjcClassRawStruct flat_namespace_binary 16400 = Some \<lparr>data = 20544\<rparr>"
    and d1: "read_ObjcDataRawStruct flat_namespace_binary 20480
               = Some \<lparr>data_name = 12320, base_methods = 24576\<rparr>"
    and d2: "read_ObjcDataRawStruct flat_namespace_binary 20544
               = Some \<lparr>data_name = 17, base_methods = 0\<rparr>"
    by (simp_all add: flat_namespace_binary_def example_binary_def example_strings_def
        example_classes_def example_datas_def)
  have m1: "(20481::int) AND NOT 3 = 20480" and m2: "(20544::int) AND NOT 3 = 20544"
    by simp_all
  have ps: "parse_static_objc_runtime_info flat_namespace_binary ?srs
     = Some ([\<lparr>class_name = ''DTLabel'', selectors = [example_sel_foo, example_sel_baz]\<rparr>],
             [LogCrossReferencing, LogParsingSelectorsForClass ''DTLabel'',
              LogInvalidObjcDataRaw 20544 17])"
    by (simp add: parse_static_objc_runtime_info_def ptrs
        get_objc_class_from_classlist_pointer_def get_objc_data_from_objc_class_def
        parse_objc_data_entry_def c1 c2 d1 d2 m1 m2 v st gs ObjcClass_def)
  have init: "ObjcRuntimeDataParser flat_namespace_binary
                = Some (flat_namespace_parser, example_log)"
    by (simp add: ObjcRuntimeDataParser_def sr ps pl flat_namespace_parser_def
        example_parser_def example_log_def)
  have q: "path_for_external_symbol flat_namespace_parser ''_objc_msgSend''
     = Some ''/usr/lib/libSystem.B.dylib''"
    by (simp add: path_for_external_symbol_def flat_namespace_parser_def)
  from sym ord dl dy pl init q show ?thesis by simp
qed

end
